theory Spec2Isabelle
  imports Complex_Main "HOL-Library.Word"
begin

unbundle bit_operations_syntax

section \<open>Python values used by the embedding service\<close>

text \<open>
  A Python \<open>str\<close> is a sequence of Unicode code points (each below \<open>0x110000\<close>, lone
  surrogates included); it is modelled as a list of naturals. \<open>bytes\<close> are lists of
  8-bit words. Python floats are modelled as exact reals; the non-finite floats that
  \<open>json.loads\<close> can produce are separate constructors.
\<close>

type_synonym pystr = "nat list"

type_synonym byte = "8 word"

definition str_lit :: "string \<Rightarrow> pystr" where
  "str_lit s = map of_char s"

datatype pyfloat = Finite real | PosInf | NegInf | NaN

datatype json =
    JNull
  | JBool bool
  | JInt int
  | JFloat pyfloat
  | JStr pystr
  | JArr "json list"
  | JObj "(pystr \<times> json) list"

text \<open>A decoded request body (\<open>dict[str, Any]\<close>) is a finite map from keys to values.\<close>

type_synonym pydict = "pystr \<rightharpoonup> json"

text \<open>\<open>data.get(key)\<close>: the value, or \<open>None\<close> (here \<open>JNull\<close>) when the key is absent.\<close>

definition dict_get :: "pydict \<Rightarrow> pystr \<Rightarrow> json" where
  "dict_get data key = (case data key of None \<Rightarrow> JNull | Some v \<Rightarrow> v)"

text \<open>\<open>data.get(key, fallback)\<close>.\<close>

definition dict_get_default :: "pydict \<Rightarrow> pystr \<Rightarrow> json \<Rightarrow> json" where
  "dict_get_default data key fallback = (case data key of None \<Rightarrow> fallback | Some v \<Rightarrow> v)"

subsection \<open>Exceptions\<close>

text \<open>
  The messages of the exceptions raised by the service itself are kept as a datatype, one
  constructor per format string of \<open>main.py\<close>.
\<close>

datatype message =
    Missing_field                 \<comment> \<open>missing 'texts' or 'input' field\<close>
  | Payload_not_str_or_list       \<comment> \<open>'texts'/'input' must be a string or array of strings\<close>
  | Text_not_string nat           \<comment> \<open>text at index \{index\} must be a string\<close>
  | No_nonempty_texts             \<comment> \<open>request contains no non-empty texts\<close>
  | Too_many_texts nat int        \<comment> \<open>too many texts: got \{len(cleaned)\}, max \{max\_items\}\<close>
  | Invalid_content_length        \<comment> \<open>invalid Content-Length header\<close>
  | Empty_request_body            \<comment> \<open>empty request body\<close>
  | Body_too_large int int        \<comment> \<open>request body too large: \{n\} bytes (max \{m\})\<close>
  | Body_not_object               \<comment> \<open>request body must be a JSON object\<close>
  | Unsupported_backend pystr     \<comment> \<open>unsupported backend: \{settings.backend\}\<close>
  | Backend_dimension_mismatch int int
                                  \<comment> \<open>backend dimension mismatch: got \{n\}, expected \{m\} ...\<close>
  | Int_conversion                \<comment> \<open>raised by \<open>int()\<close>\<close>

datatype exn =
    ValueError message
  | RuntimeError message
  | JSONDecodeError
  | UnicodeDecodeError
  | UnicodeEncodeError
  | TypeError
  | OverflowError
  | IndexError
  | LibraryError nat              \<comment> \<open>any exception raised inside the model library\<close>

text \<open>
  \<open>except ValueError\<close> also catches the subclasses of \<open>ValueError\<close>:
  \<open>json.JSONDecodeError\<close>, \<open>UnicodeDecodeError\<close> and \<open>UnicodeEncodeError\<close>.
\<close>

fun is_ValueError :: "exn \<Rightarrow> bool" where
  "is_ValueError (ValueError _) = True"
| "is_ValueError JSONDecodeError = True"
| "is_ValueError UnicodeDecodeError = True"
| "is_ValueError UnicodeEncodeError = True"
| "is_ValueError _ = False"

subsection \<open>\<open>str.strip()\<close>\<close>

text \<open>The code points for which \<open>str.isspace\<close> holds; \<open>strip()\<close> removes them at both ends.\<close>

definition is_space :: "nat \<Rightarrow> bool" where
  "is_space c \<longleftrightarrow>
     (9 \<le> c \<and> c \<le> 13) \<or> (28 \<le> c \<and> c \<le> 32) \<or> c = 133 \<or> c = 160 \<or> c = 5760 \<or>
     (8192 \<le> c \<and> c \<le> 8202) \<or> c = 8232 \<or> c = 8233 \<or> c = 8239 \<or> c = 8287 \<or> c = 12288"

definition strip :: "pystr \<Rightarrow> pystr" where
  "strip s = rev (dropWhile is_space (rev (dropWhile is_space s)))"

section \<open>Settings\<close>

definition DEFAULT_MAX_LENGTH :: int where "DEFAULT_MAX_LENGTH = 512"

definition DEFAULT_MAX_ITEMS :: int where "DEFAULT_MAX_ITEMS = 64"

definition DEFAULT_MAX_BODY_BYTES :: int where "DEFAULT_MAX_BODY_BYTES = 2000000"

definition PIPELINE_VECTOR_DIMENSIONS :: int where "PIPELINE_VECTOR_DIMENSIONS = 4096"

text \<open>The fields of \<open>Settings\<close> carry the prefix \<open>settings_\<close>.\<close>

record Settings =
  settings_host :: pystr
  settings_port :: int
  settings_backend :: pystr
  settings_model_name :: pystr
  settings_model_key :: pystr
  settings_dtype :: pystr
  settings_max_length :: int
  settings_max_items :: int
  settings_max_body_bytes :: int
  settings_log_level :: pystr

section \<open>Input validation\<close>

definition key_texts :: pystr where "key_texts = str_lit ''texts''"

definition key_input :: pystr where "key_input = str_lit ''input''"

definition key_max_length :: pystr where "key_max_length = str_lit ''max_length''"

text \<open>
  The first lines of \<open>parse_input_texts\<close>: \<open>payload = data.get("texts")\<close>, replaced by
  \<open>data["input"]\<close> when it is \<open>None\<close> and the key \<open>"input"\<close> is present.
\<close>

definition select_payload :: "pydict \<Rightarrow> json" where
  "select_payload data =
     (let payload = dict_get data key_texts in
      if payload = JNull \<and> data key_input \<noteq> None then dict_get data key_input
      else payload)"

text \<open>
  The cleaning loop \<open>for index, item in enumerate(texts)\<close>: the first item that is not a
  string raises; every other item is stripped and kept when it is not empty.
\<close>

fun clean_items :: "nat \<Rightarrow> json list \<Rightarrow> pystr list \<Rightarrow> exn + pystr list" where
  "clean_items index [] cleaned = Inr cleaned"
| "clean_items index (item # rest) cleaned =
     (case item of
        JStr s \<Rightarrow>
          (let text = strip s in
           clean_items (index + 1) rest (if text \<noteq> [] then cleaned @ [text] else cleaned))
      | _ \<Rightarrow> Inl (ValueError (Text_not_string index)))"

definition check_cleaned :: "pystr list \<Rightarrow> int \<Rightarrow> exn + pystr list" where
  "check_cleaned cleaned max_items =
     (if length cleaned = 0 then Inl (ValueError No_nonempty_texts)
      else if int (length cleaned) > max_items
        then Inl (ValueError (Too_many_texts (length cleaned) max_items))
      else Inr cleaned)"

definition parse_input_texts :: "pydict \<Rightarrow> int \<Rightarrow> exn + pystr list" where
  "parse_input_texts data max_items =
     (let payload = select_payload data in
      if payload = JNull then Inl (ValueError Missing_field)
      else
        (case (case payload of
                 JStr s \<Rightarrow> Inr [JStr s]
               | JArr items \<Rightarrow> Inr items
               | _ \<Rightarrow> Inl (ValueError Payload_not_str_or_list)) of
           Inl e \<Rightarrow> Inl e
         | Inr texts \<Rightarrow>
             (case clean_items 0 texts [] of
                Inl e \<Rightarrow> Inl e
              | Inr cleaned \<Rightarrow> check_cleaned cleaned max_items)))"

text \<open>
  \<open>int(raw)\<close> on a decoded JSON value. Integers are themselves, booleans are 0 and 1, a
  finite float is truncated towards zero, NaN raises \<open>ValueError\<close>, an infinite float
  raises \<open>OverflowError\<close>, \<open>None\<close>, lists and objects raise \<open>TypeError\<close>. The parser that
  \<open>int\<close> applies to a string is CPython's and is taken as the parameter \<open>int_of_str\<close>
  (\<open>None\<close> where it raises \<open>ValueError\<close>).
\<close>

definition truncate_real :: "real \<Rightarrow> int" where
  "truncate_real x = (if 0 \<le> x then \<lfloor>x\<rfloor> else \<lceil>x\<rceil>)"

fun py_int :: "(pystr \<Rightarrow> int option) \<Rightarrow> json \<Rightarrow> exn + int" where
  "py_int int_of_str (JInt n) = Inr n"
| "py_int int_of_str (JBool b) = Inr (if b then 1 else 0)"
| "py_int int_of_str (JFloat (Finite x)) = Inr (truncate_real x)"
| "py_int int_of_str (JFloat NaN) = Inl (ValueError Int_conversion)"
| "py_int int_of_str (JFloat PosInf) = Inl OverflowError"
| "py_int int_of_str (JFloat NegInf) = Inl OverflowError"
| "py_int int_of_str (JStr s) =
     (case int_of_str s of None \<Rightarrow> Inl (ValueError Int_conversion) | Some n \<Rightarrow> Inr n)"
| "py_int int_of_str JNull = Inl TypeError"
| "py_int int_of_str (JArr _) = Inl TypeError"
| "py_int int_of_str (JObj _) = Inl TypeError"

text \<open>
  \<open>parse_max_length\<close>: the handler \<open>except (TypeError, ValueError)\<close> returns the default;
  any other exception of \<open>int\<close> propagates.
\<close>

definition parse_max_length :: "(pystr \<Rightarrow> int option) \<Rightarrow> pydict \<Rightarrow> int \<Rightarrow> exn + int" where
  "parse_max_length int_of_str data default_value =
     (let raw = dict_get_default data key_max_length (JInt default_value) in
      case py_int int_of_str raw of
        Inl e \<Rightarrow> (if e = TypeError \<or> is_ValueError e then Inr default_value else Inl e)
      | Inr v \<Rightarrow>
          (if v < 8 then Inr 8
           else if v > 4096 then Inr 4096
           else Inr v))"

section \<open>SHA-256\<close>

text \<open>
  \<open>hashlib.sha256(data).digest()\<close>, written out over 32-bit words: padding to a multiple
  of 64 bytes, the message schedule of 64 words per block, 64 rounds of compression per
  block, and the eight state words in big-endian order as the 32 bytes of the digest.
\<close>

type_synonym u32 = "32 word"

definition sha256_K :: "u32 list" where
  "sha256_K =
    [1116352408, 1899447441, 3049323471, 3921009573, 961987163, 1508970993,
     2453635748, 2870763221, 3624381080, 310598401, 607225278, 1426881987,
     1925078388, 2162078206, 2614888103, 3248222580, 3835390401, 4022224774,
     264347078, 604807628, 770255983, 1249150122, 1555081692, 1996064986,
     2554220882, 2821834349, 2952996808, 3210313671, 3336571891, 3584528711,
     113926993, 338241895, 666307205, 773529912, 1294757372, 1396182291,
     1695183700, 1986661051, 2177026350, 2456956037, 2730485921, 2820302411,
     3259730800, 3345764771, 3516065817, 3600352804, 4094571909, 275423344,
     430227734, 506948616, 659060556, 883997877, 958139571, 1322822218,
     1537002063, 1747873779, 1955562222, 2024104815, 2227730452, 2361852424,
     2428436474, 2756734187, 3204031479, 3329325298]"

type_synonym sha_state = "u32 \<times> u32 \<times> u32 \<times> u32 \<times> u32 \<times> u32 \<times> u32 \<times> u32"

definition sha256_init :: sha_state where
  "sha256_init =
     (1779033703, 3144134277, 1013904242, 2773480762,
      1359893119, 2600822924, 528734635, 1541459225)"

definition ch :: "u32 \<Rightarrow> u32 \<Rightarrow> u32 \<Rightarrow> u32" where
  "ch x y z = (x AND y) XOR (NOT x AND z)"

definition maj :: "u32 \<Rightarrow> u32 \<Rightarrow> u32 \<Rightarrow> u32" where
  "maj x y z = (x AND y) XOR (x AND z) XOR (y AND z)"

definition upper_sigma0 :: "u32 \<Rightarrow> u32" where
  "upper_sigma0 x = word_rotr 2 x XOR word_rotr 13 x XOR word_rotr 22 x"

definition upper_sigma1 :: "u32 \<Rightarrow> u32" where
  "upper_sigma1 x = word_rotr 6 x XOR word_rotr 11 x XOR word_rotr 25 x"

definition lower_sigma0 :: "u32 \<Rightarrow> u32" where
  "lower_sigma0 x = word_rotr 7 x XOR word_rotr 18 x XOR drop_bit 3 x"

definition lower_sigma1 :: "u32 \<Rightarrow> u32" where
  "lower_sigma1 x = word_rotr 17 x XOR word_rotr 19 x XOR drop_bit 10 x"

definition sha256_pad :: "byte list \<Rightarrow> byte list" where
  "sha256_pad msg =
     (let bits = (of_nat (8 * length msg) :: 64 word) in
      msg @ [128] @ replicate ((119 - length msg mod 64) mod 64) 0 @
      map (\<lambda>i. ucast (drop_bit (8 * (7 - i)) bits)) [0..<8])"

fun be_words :: "byte list \<Rightarrow> u32 list" where
  "be_words (b0 # b1 # b2 # b3 # rest) =
     (push_bit 24 (ucast b0) OR push_bit 16 (ucast b1) OR push_bit 8 (ucast b2) OR ucast b3)
       # be_words rest"
| "be_words _ = []"

definition be_bytes :: "u32 \<Rightarrow> byte list" where
  "be_bytes w = [ucast (drop_bit 24 w), ucast (drop_bit 16 w), ucast (drop_bit 8 w), ucast w]"

fun extend_schedule :: "nat \<Rightarrow> u32 list \<Rightarrow> u32 list" where
  "extend_schedule 0 w = w"
| "extend_schedule (Suc n) w =
     (let t = length w in
      extend_schedule n
        (w @ [lower_sigma1 (w ! (t - 2)) + w ! (t - 7) + lower_sigma0 (w ! (t - 15)) + w ! (t - 16)]))"

fun sha256_round :: "sha_state \<Rightarrow> u32 \<times> u32 \<Rightarrow> sha_state" where
  "sha256_round (a, b, c, d, e, f, g, h) (k, w) =
     (let t1 = h + upper_sigma1 e + ch e f g + k + w;
          t2 = upper_sigma0 a + maj a b c
      in (t1 + t2, a, b, c, d + t1, e, f, g))"

fun add_state :: "sha_state \<Rightarrow> sha_state \<Rightarrow> sha_state" where
  "add_state (a, b, c, d, e, f, g, h) (a', b', c', d', e', f', g', h') =
     (a + a', b + b', c + c', d + d', e + e', f + f', g + g', h + h')"

definition sha256_compress :: "sha_state \<Rightarrow> byte list \<Rightarrow> sha_state" where
  "sha256_compress st block =
     add_state st (foldl sha256_round st (zip sha256_K (extend_schedule 48 (be_words block))))"

fun sha256_blocks :: "nat \<Rightarrow> sha_state \<Rightarrow> byte list \<Rightarrow> sha_state" where
  "sha256_blocks 0 st bs = st"
| "sha256_blocks (Suc n) st bs = sha256_blocks n (sha256_compress st (take 64 bs)) (drop 64 bs)"

fun state_bytes :: "sha_state \<Rightarrow> byte list" where
  "state_bytes (a, b, c, d, e, f, g, h) =
     be_bytes a @ be_bytes b @ be_bytes c @ be_bytes d @
     be_bytes e @ be_bytes f @ be_bytes g @ be_bytes h"

definition sha256 :: "byte list \<Rightarrow> byte list" where
  "sha256 msg =
     (let padded = sha256_pad msg
      in state_bytes (sha256_blocks (length padded div 64) sha256_init padded))"

lemma length_state_bytes: "length (state_bytes st) = 32"
  by (cases st rule: state_bytes.cases) (simp add: be_bytes_def)

lemma length_sha256: "length (sha256 msg) = 32"
  by (simp add: sha256_def Let_def length_state_bytes)

text \<open>The digest of \<open>b"abc"\<close>, the first test vector of the standard.\<close>

lemma sha256_abc:
  "sha256 [97, 98, 99] =
     [186, 120, 22, 191, 143, 1, 207, 234, 65, 65, 64, 222, 93, 174, 34, 35,
      176, 3, 97, 163, 150, 23, 122, 156, 180, 16, 255, 97, 242, 0, 21, 173]"
  by code_simp

section \<open>The deterministic backend\<close>

text \<open>
  \<open>str.encode("utf-8")\<close>: one to four bytes per code point; a surrogate code point
  (\<open>U+D800\<close> to \<open>U+DFFF\<close>) cannot be encoded and raises \<open>UnicodeEncodeError\<close>.
\<close>

definition is_surrogate :: "nat \<Rightarrow> bool" where
  "is_surrogate c \<longleftrightarrow> 55296 \<le> c \<and> c \<le> 57343"

definition utf8_char :: "nat \<Rightarrow> byte list" where
  "utf8_char c =
     (if c < 128 then [of_nat c]
      else if c < 2048 then [of_nat (192 + c div 64), of_nat (128 + c mod 64)]
      else if c < 65536 then
        [of_nat (224 + c div 4096), of_nat (128 + c div 64 mod 64), of_nat (128 + c mod 64)]
      else
        [of_nat (240 + c div 262144), of_nat (128 + c div 4096 mod 64),
         of_nat (128 + c div 64 mod 64), of_nat (128 + c mod 64)])"

definition utf8_bytes :: "pystr \<Rightarrow> byte list" where
  "utf8_bytes s = concat (map utf8_char s)"

definition utf8_encode :: "pystr \<Rightarrow> exn + byte list" where
  "utf8_encode s =
     (if list_ex is_surrogate s then Inl UnicodeEncodeError else Inr (utf8_bytes s))"

text \<open>The decimal digits of the counter, as \<open>f"{counter}"\<close> formats it.\<close>

fun str_of_nat :: "nat \<Rightarrow> pystr" where
  "str_of_nat n = (if n < 10 then [48 + n] else str_of_nat (n div 10) @ [48 + n mod 10])"

declare str_of_nat.simps [simp del]

text \<open>\<open>f"{text}\\n{counter}"\<close>.\<close>

definition hash_input :: "pystr \<Rightarrow> nat \<Rightarrow> pystr" where
  "hash_input text counter = text @ [10] @ str_of_nat counter"

text \<open>\<open>int.from_bytes(pair, byteorder="little", signed=False)\<close>.\<close>

definition int_from_bytes_little :: "byte list \<Rightarrow> int" where
  "int_from_bytes_little bs = foldr (\<lambda>b acc. uint b + 256 * acc) bs 0"

definition DeterministicBackend_dimensions :: int where
  "DeterministicBackend_dimensions = PIPELINE_VECTOR_DIMENSIONS"

text \<open>\<open>value = (raw / 32767.5) - 1.0\<close> for one slice \<open>digest[idx : idx + 2]\<close>.\<close>

definition pair_value :: "byte list \<Rightarrow> real" where
  "pair_value pair0 =
     (let pair = (if length pair0 < 2 then pair0 @ [0] else pair0);
          raw = int_from_bytes_little pair
      in (real_of_int raw / 32767.5) - 1.0)"

text \<open>
  The inner loop \<open>for idx in range(0, len(digest), 2)\<close> of \<open>_vector_for_text\<close>, with its
  \<open>break\<close> once \<open>len(values) >= self.dimensions\<close>.
\<close>

function digest_loop :: "byte list \<Rightarrow> nat \<Rightarrow> real list \<Rightarrow> real list" where
  "digest_loop digest idx values =
     (if idx < length digest then
        (let pair = take 2 (drop idx digest);
             values' = values @ [pair_value pair]
         in if int (length values') \<ge> DeterministicBackend_dimensions then values'
            else digest_loop digest (idx + 2) values')
      else values)"
  by pat_completeness auto
termination
  by (relation "measure (\<lambda>(digest, idx, values). length digest - idx)") auto

declare digest_loop.simps [simp del]

text \<open>Every digest contributes at least one value, which is why the outer loop ends.\<close>

lemma digest_loop_length_mono: "length vals \<le> length (digest_loop digest idx vals)"
proof (induction digest idx vals rule: digest_loop.induct)
  case (1 digest idx vals)
  show ?case
  proof (cases "idx < length digest")
    case False
    then show ?thesis by (subst digest_loop.simps) simp
  next
    case True
    let ?values' = "vals @ [pair_value (take 2 (drop idx digest))]"
    show ?thesis
    proof (cases "int (length ?values') \<ge> DeterministicBackend_dimensions")
      case full: True
      with True show ?thesis by (subst digest_loop.simps) (simp add: Let_def)
    next
      case more: False
      have "length ?values' \<le> length (digest_loop digest (idx + 2) ?values')"
        using "1.IH" [OF True refl refl] more by simp
      with True more show ?thesis by (subst digest_loop.simps) (simp add: Let_def)
    qed
  qed
qed

lemma digest_loop_grows:
  assumes "idx < length digest"
  shows "length vals < length (digest_loop digest idx vals)"
proof -
  let ?values' = "vals @ [pair_value (take 2 (drop idx digest))]"
  have "length ?values' \<le> length (digest_loop digest (idx + 2) ?values')"
    by (rule digest_loop_length_mono)
  with assms show ?thesis
    by (subst digest_loop.simps) (simp add: Let_def)
qed

text \<open>
  The outer loop \<open>while len(values) < self.dimensions\<close> of \<open>_vector_for_text\<close>: one
  digest of \<open>f"{text}\\n{counter}".encode("utf-8")\<close> per round.
\<close>

function collect_values :: "pystr \<Rightarrow> nat \<Rightarrow> real list \<Rightarrow> exn + real list" where
  "collect_values text counter values =
     (if int (length values) < DeterministicBackend_dimensions then
        (case utf8_encode (hash_input text counter) of
           Inl e \<Rightarrow> Inl e
         | Inr bytes \<Rightarrow>
             collect_values text (counter + 1) (digest_loop (sha256 bytes) 0 values))
      else Inr values)"
  by pat_completeness auto
termination
proof (relation "measure (\<lambda>(s, counter, vals). nat DeterministicBackend_dimensions - length vals)")
  fix s :: pystr and counter :: nat and vals :: "real list" and bs :: "byte list"
  assume lt: "int (length vals) < DeterministicBackend_dimensions"
  have "length vals < length (digest_loop (sha256 bs) 0 vals)"
    by (rule digest_loop_grows) (simp add: length_sha256)
  with lt show "((s, counter + 1, digest_loop (sha256 bs) 0 vals), (s, counter, vals))
        \<in> measure (\<lambda>(s, counter, vals). nat DeterministicBackend_dimensions - length vals)"
    by simp
qed simp

declare collect_values.simps [simp del]

definition euclid_norm :: "real list \<Rightarrow> real" where
  "euclid_norm values = sqrt (sum_list (map (\<lambda>value. value * value) values))"

text \<open>
  \<open>DeterministicBackend._vector_for_text\<close>: the loop, the norm, the branch for a zero
  norm (where \<open>values[0] = 1.0\<close> raises \<open>IndexError\<close> on an empty list), the division.
\<close>

definition vector_for_text :: "pystr \<Rightarrow> exn + real list" where
  "vector_for_text text =
     (case collect_values text 0 [] of
        Inl e \<Rightarrow> Inl e
      | Inr values \<Rightarrow>
          (let norm = euclid_norm values in
           if norm = 0 then
             (case values of
                [] \<Rightarrow> Inl IndexError
              | _ # _ \<Rightarrow> Inr (map (\<lambda>value. value / 1) (values[0 := 1])))
           else Inr (map (\<lambda>value. value / norm) values)))"

text \<open>The comprehension \<open>[self._vector_for_text(text) for text in texts]\<close>.\<close>

fun vectors_for_texts :: "pystr list \<Rightarrow> exn + real list list" where
  "vectors_for_texts [] = Inr []"
| "vectors_for_texts (text # texts) =
     (case vector_for_text text of
        Inl e \<Rightarrow> Inl e
      | Inr v \<Rightarrow>
          (case vectors_for_texts texts of
             Inl e \<Rightarrow> Inl e
           | Inr vs \<Rightarrow> Inr (v # vs)))"

text \<open>
  \<open>DeterministicBackend.embed\<close>: \<open>max_length\<close> is bound to \<open>_\<close> and not used. The method
  reads no attribute of \<open>self\<close> but the class constant \<open>dimensions\<close> and assigns none.
\<close>

definition DeterministicBackend_embed :: "pystr list \<Rightarrow> int \<Rightarrow> exn + real list list" where
  "DeterministicBackend_embed texts max_length = vectors_for_texts texts"

section \<open>Backends\<close>

record Health =
  health_backend :: pystr
  health_model :: pystr
  health_device :: pystr
  health_dimensions :: int

text \<open>
  The protocol \<open>EmbeddingBackend\<close>: a name, the declared dimensionality, \<open>embed\<close> and
  \<open>health\<close>. A call of \<open>embed\<close> is a function of its arguments.
\<close>

record EmbeddingBackend =
  backend_name :: pystr
  backend_dimensions :: int
  backend_embed :: "pystr list \<Rightarrow> int \<Rightarrow> exn + real list list"
  backend_health :: Health

definition DeterministicBackend :: "pystr \<Rightarrow> EmbeddingBackend" where
  "DeterministicBackend model_name =
     \<lparr>backend_name = str_lit ''deterministic'',
      backend_dimensions = DeterministicBackend_dimensions,
      backend_embed = DeterministicBackend_embed,
      backend_health =
        \<lparr>health_backend = str_lit ''deterministic'', health_model = model_name,
         health_device = str_lit ''cpu'', health_dimensions = DeterministicBackend_dimensions\<rparr>\<rparr>"

text \<open>
  The model library (\<open>torch\<close>, \<open>transformers\<close>) is outside the repository. Loading a model
  is the parameter \<open>load_model\<close>: from the model name and the dtype it raises, or gives the
  device, the \<open>hidden_size\<close> of the model's configuration (0 when it has none) and the
  inference function that \<open>TransformersBackend.embed\<close> runs under its lock.
\<close>

record LoadedModel =
  model_device :: pystr
  model_hidden_size :: int
  model_infer :: "pystr list \<Rightarrow> int \<Rightarrow> exn + real list list"

type_synonym loader = "pystr \<Rightarrow> pystr \<Rightarrow> exn + LoadedModel"

definition TransformersBackend :: "loader \<Rightarrow> pystr \<Rightarrow> pystr \<Rightarrow> exn + EmbeddingBackend" where
  "TransformersBackend load_model model_name dtype =
     (case load_model model_name dtype of
        Inl e \<Rightarrow> Inl e
      | Inr m \<Rightarrow>
          (let dimensions =
                 (if model_hidden_size m > 0 then model_hidden_size m
                  else PIPELINE_VECTOR_DIMENSIONS)
           in Inr
             \<lparr>backend_name = str_lit ''transformers'',
              backend_dimensions = dimensions,
              backend_embed =
                (\<lambda>texts max_length.
                   if length texts = 0 then Inr [] else model_infer m texts max_length),
              backend_health =
                \<lparr>health_backend = str_lit ''transformers'', health_model = model_name,
                 health_device = model_device m, health_dimensions = dimensions\<rparr>\<rparr>))"

text \<open>The \<open>if\<close>/\<open>elif\<close>/\<open>else\<close> of \<open>create_backend\<close> that constructs the backend.\<close>

definition construct_backend :: "loader \<Rightarrow> Settings \<Rightarrow> exn + EmbeddingBackend" where
  "construct_backend load_model settings =
     (if settings_backend settings = str_lit ''deterministic''
        then Inr (DeterministicBackend (settings_model_name settings))
      else if settings_backend settings = str_lit ''transformers''
        then TransformersBackend load_model (settings_model_name settings) (settings_dtype settings)
      else Inl (ValueError (Unsupported_backend (settings_backend settings))))"

definition create_backend :: "loader \<Rightarrow> Settings \<Rightarrow> exn + EmbeddingBackend" where
  "create_backend load_model settings =
     (case construct_backend load_model settings of
        Inl e \<Rightarrow> Inl e
      | Inr backend \<Rightarrow>
          if backend_dimensions backend \<noteq> PIPELINE_VECTOR_DIMENSIONS
          then Inl (RuntimeError
                 (Backend_dimension_mismatch (backend_dimensions backend)
                    PIPELINE_VECTOR_DIMENSIONS))
          else Inr backend)"

section \<open>The server\<close>

record ServiceState =
  state_settings :: Settings
  state_backend :: EmbeddingBackend
  state_started_at :: real

text \<open>
  \<open>run_server\<close> up to the construction of the \<open>ServiceState\<close>. The listener is bound by
  the statement after it (\<open>ThreadingHTTPServer(...)\<close>), which is not reached when
  \<open>create_backend\<close> raises. \<open>now\<close> is the reading of \<open>time.time()\<close>.
\<close>

definition run_server_state :: "loader \<Rightarrow> Settings \<Rightarrow> real \<Rightarrow> exn + ServiceState" where
  "run_server_state load_model settings now =
     (case create_backend load_model settings of
        Inl e \<Rightarrow> Inl e
      | Inr backend \<Rightarrow>
          Inr \<lparr>state_settings = settings, state_backend = backend, state_started_at = now\<rparr>)"

subsection \<open>Requests and responses\<close>

text \<open>
  A request as the handler reads it: the request line's method and path, the
  \<open>Content-Length\<close> header when present, and the bytes that \<open>rfile\<close> delivers.
\<close>

record Request =
  req_command :: pystr
  req_path :: pystr
  req_content_length :: "pystr option"
  req_rfile :: "byte list"

datatype error_text =
    Not_found                         \<comment> \<open>not found\<close>
  | Invalid_JSON_body                 \<comment> \<open>invalid JSON body\<close>
  | Exception_text exn                \<comment> \<open>\<open>str(exc)\<close>\<close>
  | Inference_failed exn              \<comment> \<open>inference failed: \{exc\}\<close>
  | Embedding_count_mismatch nat nat  \<comment> \<open>backend returned \{n\} embeddings for \{m\} texts\<close>
  | Dimension_mismatch nat int        \<comment> \<open>dimension mismatch: got \{n\}, expected \{m\}\<close>

text \<open>
  The JSON objects the handler writes. The constant members of the OpenAI-style object
  (\<open>"object"\<close>, \<open>"usage"\<close>) are not stored; its \<open>data\<close> is the list of pairs of \<open>index\<close>
  and \<open>embedding\<close>.
\<close>

datatype payload =
    Error_payload error_text
  | Health_payload real int Health
  | Embed_payload "real list list" pystr int nat real
  | OpenAI_payload "(nat \<times> real list) list" pystr
  | Stdlib_error_page

record Response =
  resp_status :: nat
  resp_payload :: payload

definition write_json :: "nat \<Rightarrow> payload \<Rightarrow> Response" where
  "write_json status payload = \<lparr>resp_status = status, resp_payload = payload\<rparr>"

definition write_error :: "nat \<Rightarrow> error_text \<Rightarrow> Response" where
  "write_error status message = write_json status (Error_payload message)"

definition NOT_FOUND :: nat where "NOT_FOUND = 404"

definition BAD_REQUEST :: nat where "BAD_REQUEST = 400"

definition INTERNAL_SERVER_ERROR :: nat where "INTERNAL_SERVER_ERROR = 500"


definition OK :: nat where "OK = 200"

definition path_health :: pystr where "path_health = str_lit ''/health''"

definition path_embed :: pystr where "path_embed = str_lit ''/embed''"

definition path_v1_embeddings :: pystr where "path_v1_embeddings = str_lit ''/v1/embeddings''"

text \<open>
  \<open>Handler._read_json\<close>. \<open>int_of_str\<close> is the parser that \<open>int\<close> applies to a string;
  \<open>json_loads\<close> stands for \<open>json.loads(raw_body.decode("utf-8"))\<close>, which raises
  \<open>UnicodeDecodeError\<close> or \<open>JSONDecodeError\<close> or returns the decoded value. A decoded
  object keeps the last value of a repeated key.
\<close>

definition read_json ::
  "(pystr \<Rightarrow> int option) \<Rightarrow> (byte list \<Rightarrow> exn + json) \<Rightarrow> ServiceState \<Rightarrow> Request \<Rightarrow> exn + pydict"
where
  "read_json int_of_str json_loads state request =
     (let raw_length =
            strip (case req_content_length request of None \<Rightarrow> str_lit ''0'' | Some h \<Rightarrow> h)
      in case int_of_str raw_length of
           None \<Rightarrow> Inl (ValueError Invalid_content_length)
         | Some content_length \<Rightarrow>
             if content_length \<le> 0 then Inl (ValueError Empty_request_body)
             else if content_length > settings_max_body_bytes (state_settings state)
               then Inl (ValueError
                      (Body_too_large content_length
                         (settings_max_body_bytes (state_settings state))))
             else
               (let raw_body = take (nat content_length) (req_rfile request)
                in case json_loads raw_body of
                     Inl e \<Rightarrow> Inl e
                   | Inr decoded \<Rightarrow>
                       (case decoded of
                          JObj members \<Rightarrow> Inr (map_of (rev members))
                        | _ \<Rightarrow> Inl (ValueError Body_not_object))))"

text \<open>The \<open>try\<close> block of \<open>do_POST\<close>: body, texts and \<open>max_length\<close>.\<close>

definition read_request ::
  "(pystr \<Rightarrow> int option) \<Rightarrow> (byte list \<Rightarrow> exn + json) \<Rightarrow> ServiceState \<Rightarrow> Request
     \<Rightarrow> exn + (pystr list \<times> int)"
where
  "read_request int_of_str json_loads state request =
     (case read_json int_of_str json_loads state request of
        Inl e \<Rightarrow> Inl e
      | Inr body \<Rightarrow>
          (case parse_input_texts body (settings_max_items (state_settings state)) of
             Inl e \<Rightarrow> Inl e
           | Inr texts \<Rightarrow>
               (case parse_max_length int_of_str body (settings_max_length (state_settings state)) of
                  Inl e \<Rightarrow> Inl e
                | Inr max_length \<Rightarrow> Inr (texts, max_length))))"

text \<open>
  \<open>Handler.do_POST\<close>. The result is the response written, or the exception that leaves
  the method uncaught. \<open>elapsed_ms\<close> is the measured time of the backend call.
\<close>

definition do_POST ::
  "(pystr \<Rightarrow> int option) \<Rightarrow> (byte list \<Rightarrow> exn + json) \<Rightarrow> real \<Rightarrow> ServiceState \<Rightarrow> Request
     \<Rightarrow> exn + Response"
where
  "do_POST int_of_str json_loads elapsed_ms state request =
     (if req_path request \<noteq> path_embed \<and> req_path request \<noteq> path_v1_embeddings
        then Inr (write_error NOT_FOUND Not_found)
      else
        case read_request int_of_str json_loads state request of
          Inl exc \<Rightarrow>
            if is_ValueError exc then Inr (write_error BAD_REQUEST (Exception_text exc))
            else if exc = JSONDecodeError then Inr (write_error BAD_REQUEST Invalid_JSON_body)
            else Inl exc
        | Inr (texts, max_length) \<Rightarrow>
            (case backend_embed (state_backend state) texts max_length of
               Inl exc \<Rightarrow> Inr (write_error INTERNAL_SERVER_ERROR (Inference_failed exc))
             | Inr vectors \<Rightarrow>
                 if length vectors \<noteq> length texts
                   then Inr (write_error INTERNAL_SERVER_ERROR
                          (Embedding_count_mismatch (length vectors) (length texts)))
                 else if length vectors > 0 \<and>
                         int (length (hd vectors)) \<noteq> backend_dimensions (state_backend state)
                   then Inr (write_error INTERNAL_SERVER_ERROR
                          (Dimension_mismatch (length (hd vectors))
                             (backend_dimensions (state_backend state))))
                 else if req_path request = path_v1_embeddings
                   then Inr (write_json OK
                          (OpenAI_payload (enumerate 0 vectors)
                             (settings_model_name (state_settings state))))
                 else Inr (write_json OK
                        (Embed_payload vectors (settings_model_name (state_settings state))
                           (backend_dimensions (state_backend state)) (length vectors)
                           elapsed_ms))))"



section \<open>The specification's words\<close>

text \<open>
  The specification describes the values contributed by one digest: the digest is sliced
  into consecutive 2-byte little-endian unsigned integers (an incomplete trailing pair is
  zero-padded), and each raw integer is mapped to \<open>raw / 32767.5 - 1\<close>. The values
  of the digests for the counters 0, 1, 2, ... are appended until 4096 are collected; 256
  digests of 16 values each are enough. The vector is the list of values divided by its
  Euclidean norm.
\<close>

fun spec_pairs :: "byte list \<Rightarrow> int list" where
  "spec_pairs (b0 # b1 # rest) = (uint b0 + 256 * uint b1) # spec_pairs rest"
| "spec_pairs [b0] = [uint b0]"
| "spec_pairs [] = []"

definition spec_value :: "int \<Rightarrow> real" where
  "spec_value raw = real_of_int raw / 32767.5 - 1"

definition spec_digest_values :: "byte list \<Rightarrow> real list" where
  "spec_digest_values digest = map spec_value (spec_pairs digest)"

definition spec_stream :: "pystr \<Rightarrow> nat \<Rightarrow> nat \<Rightarrow> real list" where
  "spec_stream text counter n =
     concat (map (\<lambda>k. spec_digest_values (sha256 (utf8_bytes (hash_input text k))))
                 [counter ..< counter + n])"

definition spec_values :: "pystr \<Rightarrow> real list" where
  "spec_values text = take 4096 (spec_stream text 0 256)"

definition spec_vector :: "pystr \<Rightarrow> real list" where
  "spec_vector text =
     (let values = spec_values text in map (\<lambda>value. value / euclid_norm values) values)"

text \<open>
  The two properties of a component that keep the norm away from zero.
\<close>

definition is_component :: "real \<Rightarrow> bool" where
  "is_component v \<longleftrightarrow> (\<exists>raw. 0 \<le> raw \<and> raw \<le> 65535 \<and> v = real_of_int raw / 32767.5 - 1)"

definition away_from_zero :: "real \<Rightarrow> bool" where
  "away_from_zero v \<longleftrightarrow> 1 / 65535 \<le> \<bar>v\<bar>"

text \<open>The clamping of the specification: below 8 gives 8, above 4096 gives 4096.\<close>

definition clamp_max_length :: "int \<Rightarrow> int" where
  "clamp_max_length v = (if v < 8 then 8 else if v > 4096 then 4096 else v)"

text \<open>
  The per-response check of the specification, and the success response of each path.
\<close>

definition contract_violated :: "EmbeddingBackend \<Rightarrow> pystr list \<Rightarrow> real list list \<Rightarrow> bool" where
  "contract_violated backend texts vectors \<longleftrightarrow>
     length vectors \<noteq> length texts \<or>
     (\<exists>v vs. vectors = v # vs \<and> int (length v) \<noteq> backend_dimensions backend)"

definition success_payload :: "real \<Rightarrow> ServiceState \<Rightarrow> Request \<Rightarrow> real list list \<Rightarrow> payload" where
  "success_payload elapsed_ms state request vectors =
     (if req_path request = path_v1_embeddings
      then OpenAI_payload (enumerate 0 vectors) (settings_model_name (state_settings state))
      else Embed_payload vectors (settings_model_name (state_settings state))
             (backend_dimensions (state_backend state)) (length vectors) elapsed_ms)"

text \<open>What a response carries besides the shape of its envelope.\<close>

fun payload_vectors :: "payload \<Rightarrow> real list list option" where
  "payload_vectors (Embed_payload embeddings model dimensions count elapsed_ms) = Some embeddings"
| "payload_vectors (OpenAI_payload data model) = Some (map snd data)"
| "payload_vectors _ = None"

fun payload_error :: "payload \<Rightarrow> error_text option" where
  "payload_error (Error_payload message) = Some message"
| "payload_error _ = None"

definition response_content :: "Response \<Rightarrow> nat \<times> error_text option \<times> real list list option" where
  "response_content response =
     (resp_status response, payload_error (resp_payload response),
      payload_vectors (resp_payload response))"

section \<open>Example inputs\<close>

text \<open>An instance of the string parser: optional sign, then ASCII decimal digits.\<close>

fun decimal_digits :: "pystr \<Rightarrow> nat \<Rightarrow> nat option" where
  "decimal_digits [] acc = Some acc"
| "decimal_digits (c # cs) acc =
     (if 48 \<le> c \<and> c \<le> 57 then decimal_digits cs (10 * acc + (c - 48)) else None)"

definition decimal_int_of_str :: "pystr \<Rightarrow> int option" where
  "decimal_int_of_str s =
     (case strip s of
        [] \<Rightarrow> None
      | c # cs \<Rightarrow>
          if c = 45 then (if cs = [] then None else map_option (\<lambda>n. - int n) (decimal_digits cs 0))
          else if c = 43 then (if cs = [] then None else map_option int (decimal_digits cs 0))
          else map_option int (decimal_digits (c # cs) 0))"

text \<open>The request object \<open>{}\<close>.\<close>

definition empty_body :: pydict where
  "empty_body = Map.empty"

definition example_texts :: "pystr list" where
  "example_texts = [str_lit '' a '', str_lit ''  '', str_lit ''b'']"

definition example_body :: pydict where
  "example_body = [key_texts \<mapsto> JArr (map JStr example_texts)]"

definition example_both_keys :: pydict where
  "example_both_keys = [key_texts \<mapsto> JStr (str_lit ''a''), key_input \<mapsto> JStr (str_lit ''b'')]"

definition example_null_texts :: pydict where
  "example_null_texts = [key_texts \<mapsto> JNull, key_input \<mapsto> JStr (str_lit ''b'')]"

definition hello_world :: pystr where
  "hello_world = str_lit ''hello world''"

definition hi :: pystr where "hi = str_lit ''hi''"

definition example_settings :: "pystr \<Rightarrow> Settings" where
  "example_settings backend =
     \<lparr>settings_host = str_lit ''0.0.0.0'', settings_port = 8844, settings_backend = backend,
      settings_model_name = str_lit ''Qwen/Qwen3-Embedding-8B'',
      settings_model_key = str_lit ''Qwen3-Embedding-8B'', settings_dtype = str_lit ''float16'',
      settings_max_length = DEFAULT_MAX_LENGTH, settings_max_items = DEFAULT_MAX_ITEMS,
      settings_max_body_bytes = DEFAULT_MAX_BODY_BYTES, settings_log_level = str_lit ''INFO''\<rparr>"

text \<open>A loader whose model reports the given hidden size and answers every text with \<open>[0]\<close>.\<close>

definition example_loader :: "int \<Rightarrow> loader" where
  "example_loader hidden_size model_name dtype =
     Inr \<lparr>model_device = str_lit ''cpu'', model_hidden_size = hidden_size,
          model_infer = (\<lambda>texts max_length. Inr (map (\<lambda>text. [0]) texts))\<rparr>"

definition failing_loader :: loader where
  "failing_loader model_name dtype = Inl (LibraryError 0)"

definition example_state :: ServiceState where
  "example_state =
     \<lparr>state_settings = example_settings (str_lit ''deterministic''),
      state_backend = DeterministicBackend (str_lit ''Qwen/Qwen3-Embedding-8B''),
      state_started_at = 0\<rparr>"

text \<open>A state whose backend declares 4096 dimensions and returns vectors of width 1.\<close>

definition narrow_backend :: EmbeddingBackend where
  "narrow_backend =
     \<lparr>backend_name = str_lit ''transformers'', backend_dimensions = 4096,
      backend_embed = (\<lambda>texts max_length. Inr (map (\<lambda>text. [0]) texts)),
      backend_health =
        \<lparr>health_backend = str_lit ''transformers'', health_model = str_lit ''m'',
         health_device = str_lit ''cpu'', health_dimensions = 4096\<rparr>\<rparr>"

definition example_request :: "pystr \<Rightarrow> pystr \<Rightarrow> Request" where
  "example_request command path =
     \<lparr>req_command = command, req_path = path, req_content_length = Some (str_lit ''19''),
      req_rfile = utf8_bytes (str_lit ''{\"texts\": [\" hi \"]}'')\<rparr>"

text \<open>A decoder that knows the body of \<open>example_request\<close> and rejects every other body.\<close>

definition example_json_loads :: "byte list \<Rightarrow> exn + json" where
  "example_json_loads raw_body =
     (if raw_body = utf8_bytes (str_lit ''{\"texts\": [\" hi \"]}'')
      then Inr (JObj [(key_texts, JArr [JStr (str_lit '' hi '')])])
      else Inl JSONDecodeError)"

section \<open>Verification\<close>

subsection \<open>The inner and outer loop of the deterministic backend\<close>

lemma spec_digest_values_step:
  assumes "idx < length digest"
  shows "spec_digest_values (drop idx digest) =
         pair_value (take 2 (drop idx digest)) # spec_digest_values (drop (idx + 2) digest)"
proof -
  from assms obtain b0 rest where d: "drop idx digest = b0 # rest"
    by (cases "drop idx digest") auto
  have d2: "drop (idx + 2) digest = drop 2 (drop idx digest)"
    by (simp add: add.commute)
  show ?thesis
  proof (cases rest)
    case Nil
    with d d2 show ?thesis
      by (simp add: spec_digest_values_def spec_value_def pair_value_def int_from_bytes_little_def)
  next
    case (Cons b1 rest')
    with d d2 show ?thesis
      by (simp add: spec_digest_values_def spec_value_def pair_value_def int_from_bytes_little_def)
  qed
qed

lemma digest_loop_eq:
  "int (length values) < DeterministicBackend_dimensions \<Longrightarrow>
   digest_loop digest idx values =
     values @ take (nat DeterministicBackend_dimensions - length values)
                (spec_digest_values (drop idx digest))"
proof (induction digest idx "values" rule: digest_loop.induct)
  case (1 digest idx vals)
  show ?case
  proof (cases "idx < length digest")
    case False
    then show ?thesis
      by (simp add: digest_loop.simps [of digest idx vals] spec_digest_values_def)
  next
    case True
    let ?v = "pair_value (take 2 (drop idx digest))"
    let ?values' = "vals @ [?v]"
    note step = spec_digest_values_step [OF True]
    show ?thesis
    proof (cases "int (length ?values') \<ge> DeterministicBackend_dimensions")
      case full: True
      with "1.prems" have "nat DeterministicBackend_dimensions - length vals = Suc 0"
        by simp
      with True full show ?thesis
        by (simp add: digest_loop.simps [of digest idx vals] step Let_def)
    next
      case more: False
      then have lt: "int (length ?values') < DeterministicBackend_dimensions" by simp
      have ih: "digest_loop digest (idx + 2) ?values' =
          ?values' @ take (nat DeterministicBackend_dimensions - length ?values')
                       (spec_digest_values (drop (idx + 2) digest))"
        using "1.IH" [OF True refl refl _ lt] more by simp
      from more obtain k where k: "nat DeterministicBackend_dimensions - length vals = Suc k"
        and k': "nat DeterministicBackend_dimensions - length ?values' = k"
        by (cases "nat DeterministicBackend_dimensions - length vals") auto
      have "digest_loop digest idx vals = digest_loop digest (idx + 2) ?values'"
        using True more by (subst digest_loop.simps) (simp add: Let_def)
      also have "\<dots> = ?values' @ take k (spec_digest_values (drop (idx + 2) digest))"
        using ih k' by simp
      also have "\<dots> = vals @ take (Suc k) (?v # spec_digest_values (drop (idx + 2) digest))"
        by simp
      finally show ?thesis
        using step k by simp
    qed
  qed
qed

lemma utf8_encode_ok: "\<not> list_ex is_surrogate s \<Longrightarrow> utf8_encode s = Inr (utf8_bytes s)"
  by (simp add: utf8_encode_def)

lemma length_spec_pairs: "length (spec_pairs bs) = (length bs + 1) div 2"
  by (induction bs rule: spec_pairs.induct) simp_all

lemma length_spec_digest_values_sha256 [simp]:
  "length (spec_digest_values (sha256 bs)) = 16"
  by (simp add: spec_digest_values_def length_spec_pairs length_sha256)

lemma digest_loop_sha256_length:
  assumes "int (length vals) < DeterministicBackend_dimensions"
  shows "length (digest_loop (sha256 bs) 0 vals) =
         min (nat DeterministicBackend_dimensions) (length vals + 16)"
proof -
  have "length (digest_loop (sha256 bs) 0 vals) =
        length vals + min 16 (nat DeterministicBackend_dimensions - length vals)"
    by (simp add: digest_loop_eq [OF assms] min.commute)
  with assms show ?thesis by linarith
qed

lemma str_of_nat_no_surrogate: "\<not> list_ex is_surrogate (str_of_nat n)"
proof (induction n rule: str_of_nat.induct)
  case (1 n)
  have digit: "\<not> is_surrogate (48 + n mod 10)" "n < 10 \<Longrightarrow> \<not> is_surrogate (48 + n)"
    by (simp_all add: is_surrogate_def)
  show ?case
  proof (cases "n < 10")
    case True
    with digit show ?thesis by (subst str_of_nat.simps) simp
  next
    case False
    with "1.IH" digit show ?thesis by (subst str_of_nat.simps) simp
  qed
qed

lemma hash_input_no_surrogate:
  "\<not> list_ex is_surrogate text \<Longrightarrow> \<not> list_ex is_surrogate (hash_input text counter)"
  using str_of_nat_no_surrogate [of counter]
  by (simp add: hash_input_def is_surrogate_def)

lemma length_spec_stream [simp]: "length (spec_stream text counter n) = 16 * n"
  by (induction n) (simp_all add: spec_stream_def)

lemma spec_stream_Suc:
  "spec_stream text counter (Suc n) =
   spec_digest_values (sha256 (utf8_bytes (hash_input text counter))) @
   spec_stream text (counter + 1) n"
  by (simp add: spec_stream_def upt_rec [of counter "Suc (counter + n)"] del: upt_Suc)

lemma collect_values_eq:
  "\<not> list_ex is_surrogate text \<Longrightarrow>
   length vals \<le> nat DeterministicBackend_dimensions \<Longrightarrow>
   nat DeterministicBackend_dimensions - length vals \<le> 16 * n \<Longrightarrow>
   collect_values text counter vals =
     Inr (vals @ take (nat DeterministicBackend_dimensions - length vals)
                    (spec_stream text counter n))"
proof (induction "text" counter vals arbitrary: n rule: collect_values.induct)
  case (1 s counter vals)
  let ?D = "nat DeterministicBackend_dimensions"
  show ?case
  proof (cases "int (length vals) < DeterministicBackend_dimensions")
    case False
    with "1.prems"(2) have "?D - length vals = 0" by simp
    with False show ?thesis
      by (subst collect_values.simps) simp
  next
    case True
    let ?bs = "utf8_bytes (hash_input s counter)"
    let ?dv = "spec_digest_values (sha256 ?bs)"
    let ?vals' = "digest_loop (sha256 ?bs) 0 vals"
    let ?r = "?D - length vals"
    have enc: "utf8_encode (hash_input s counter) = Inr ?bs"
      by (rule utf8_encode_ok) (rule hash_input_no_surrogate [OF "1.prems"(1)])
    have vals': "?vals' = vals @ take ?r ?dv"
      by (simp add: digest_loop_eq [OF True])
    have len': "length ?vals' = min ?D (length vals + 16)"
      by (rule digest_loop_sha256_length [OF True])
    from True have "0 < ?r" by simp
    with "1.prems"(3) obtain m where n: "n = Suc m" by (cases n) auto
    have le': "length ?vals' \<le> ?D" using len' by simp
    have r': "?D - length ?vals' = ?r - 16" using len' by simp
    have fuel: "?D - length ?vals' \<le> 16 * m" using r' "1.prems"(3) n by simp
    have "collect_values s counter vals = collect_values s (counter + 1) ?vals'"
      using True enc by (subst collect_values.simps) simp
    also have "\<dots> = Inr (?vals' @ take (?D - length ?vals') (spec_stream s (counter + 1) m))"
      by (rule "1.IH" [OF True enc "1.prems"(1) le' fuel])
    also have "?vals' @ take (?D - length ?vals') (spec_stream s (counter + 1) m) =
               ?vals' @ take (?r - 16) (spec_stream s (counter + 1) m)"
      by (simp only: r')
    also have "\<dots> = vals @ take ?r (?dv @ spec_stream s (counter + 1) m)"
      by (simp add: vals')
    finally show ?thesis
      by (simp only: n spec_stream_Suc)
  qed
qed

lemma dims_nat [simp]: "nat DeterministicBackend_dimensions = 4096"
  by (simp add: DeterministicBackend_dimensions_def PIPELINE_VECTOR_DIMENSIONS_def)

lemma collect_values_ok:
  assumes "\<not> list_ex is_surrogate text"
  shows "collect_values text 0 [] = Inr (spec_values text)"
  using collect_values_eq [OF assms, of "[]" 256 0] by (simp add: spec_values_def)

lemma collect_values_surrogate:
  assumes "list_ex is_surrogate text"
  shows "collect_values text 0 [] = Inl UnicodeEncodeError"
proof -
  have "list_ex is_surrogate (hash_input text 0)"
    using assms by (simp add: hash_input_def)
  then have "utf8_encode (hash_input text 0) = Inl UnicodeEncodeError"
    by (simp add: utf8_encode_def)
  then show ?thesis
    by (subst collect_values.simps)
       (simp add: DeterministicBackend_dimensions_def PIPELINE_VECTOR_DIMENSIONS_def)
qed

lemma length_spec_values [simp]: "length (spec_values text) = 4096"
  by (simp add: spec_values_def)

subsection \<open>The norm\<close>

lemma spec_value_margin: "away_from_zero (spec_value raw)"
proof -
  have eq: "spec_value raw = real_of_int (2 * raw - 65535) / 65535"
    by (simp add: spec_value_def field_simps)
  have "2 * raw - 65535 \<noteq> 0" by presburger
  then have "1 \<le> \<bar>2 * raw - 65535\<bar>" by linarith
  then have "1 \<le> \<bar>real_of_int (2 * raw - 65535)\<bar>"
    by (metis of_int_1 of_int_abs of_int_le_iff)
  then show ?thesis
    unfolding eq away_from_zero_def by (simp add: field_simps)
qed

lemma spec_digest_values_margin:
  "list_all away_from_zero (spec_digest_values digest)"
  by (simp add: spec_digest_values_def list_all_iff spec_value_margin)

lemma spec_stream_margin: "list_all away_from_zero (spec_stream text counter n)"
  using spec_digest_values_margin
  by (auto simp: spec_stream_def list_all_iff)

lemma spec_values_margin: "list_all away_from_zero (spec_values text)"
  using spec_stream_margin [of "text" 0 256]
  by (auto simp: spec_values_def list_all_iff dest: in_set_takeD)

lemma sum_squares_lower:
  fixes c :: real
  assumes "0 \<le> c" "list_all (\<lambda>v. c \<le> \<bar>v\<bar>) vs"
  shows "real (length vs) * (c * c) \<le> sum_list (map (\<lambda>v. v * v) vs)"
  using assms(2)
proof (induction vs)
  case Nil
  show ?case by simp
next
  case (Cons v vs)
  then have "c \<le> \<bar>v\<bar>" by simp
  with assms(1) have "c * c \<le> \<bar>v\<bar> * \<bar>v\<bar>" by (intro mult_mono) auto
  then have "c * c \<le> v * v" by simp
  with Cons show ?case by (simp add: algebra_simps)
qed

lemma euclid_norm_spec_values: "64 / 65535 \<le> euclid_norm (spec_values text)"
proof -
  have "real (length (spec_values text)) * (1 / 65535 * (1 / 65535)) \<le>
        sum_list (map (\<lambda>v. v * v) (spec_values text))"
    by (rule sum_squares_lower)
       (use spec_values_margin [of "text"] in \<open>simp_all add: list_all_iff away_from_zero_def\<close>)
  then have "(64 / 65535)\<^sup>2 \<le> sum_list (map (\<lambda>v. v * v) (spec_values text))"
    by (simp add: power2_eq_square)
  then show ?thesis
    unfolding euclid_norm_def by (intro real_le_rsqrt)
qed

lemma sum_squares_nonneg: "0 \<le> sum_list (map (\<lambda>v. v * v) (vs :: real list))"
  by (induction vs) simp_all

lemma sum_squares_scaled:
  "sum_list (map (\<lambda>v. v * v) (map (\<lambda>v. v / n) vs)) =
   sum_list (map (\<lambda>v. v * v) vs) / (n * n)" for n :: real
  by (induction vs) (simp_all add: add_divide_distrib)

lemma euclid_norm_normalised:
  assumes "0 < euclid_norm vs"
  shows "euclid_norm (map (\<lambda>v. v / euclid_norm vs) vs) = 1"
proof -
  let ?S = "sum_list (map (\<lambda>v. v * v) vs)"
  have sq: "euclid_norm vs * euclid_norm vs = ?S"
    unfolding euclid_norm_def using sum_squares_nonneg [of vs] by simp
  from assms sq have pos: "0 < ?S" by (metis mult_pos_pos)
  have "sum_list (map (\<lambda>v. v * v) (map (\<lambda>v. v / euclid_norm vs) vs)) = ?S / ?S"
    by (simp only: sum_squares_scaled sq)
  also have "\<dots> = 1" using pos by simp
  finally show ?thesis
    by (simp add: euclid_norm_def)
qed

lemma vector_for_text_ok:
  assumes "\<not> list_ex is_surrogate text"
  shows "vector_for_text text = Inr (spec_vector text)"
proof -
  have "0 < euclid_norm (spec_values text)"
    using euclid_norm_spec_values [of "text"] by simp
  then show ?thesis
    by (simp add: vector_for_text_def collect_values_ok [OF assms] spec_vector_def Let_def)
qed

lemma vector_for_text_surrogate:
  "list_ex is_surrogate text \<Longrightarrow> vector_for_text text = Inl UnicodeEncodeError"
  by (simp add: vector_for_text_def collect_values_surrogate)

lemma spec_vector_norm: "length (spec_vector text) = 4096 \<and> euclid_norm (spec_vector text) = 1"
proof -
  have "0 < euclid_norm (spec_values text)"
    using euclid_norm_spec_values [of "text"] by simp
  then show ?thesis
    by (simp add: spec_vector_def Let_def euclid_norm_normalised)
qed

lemma spec_values_unfold:
  "spec_values text =
     take 4096
       (concat (map (\<lambda>counter.
           map (\<lambda>raw. real_of_int raw / 32767.5 - 1)
             (spec_pairs (sha256 (utf8_bytes (text @ [10] @ str_of_nat counter)))))
         [0..<256]))"
  by (simp add: spec_values_def spec_stream_def spec_digest_values_def spec_value_def [abs_def]
        hash_input_def)

lemma spec_pairs_range: "list_all (\<lambda>raw. 0 \<le> raw \<and> raw \<le> 65535) (spec_pairs bs)"
proof (induction bs rule: spec_pairs.induct)
  case (1 b0 b1 rest)
  have "uint b0 < 256" "uint b1 < 256" "0 \<le> uint b0" "0 \<le> uint b1"
    using uint_lt2p [of b0] uint_lt2p [of b1] by simp_all
  with 1 show ?case by simp
next
  case (2 b0)
  have "uint b0 < 256" using uint_lt2p [of b0] by simp
  then show ?case by simp
next
  case 3
  show ?case by simp
qed

lemma spec_digest_values_components: "list_all is_component (spec_digest_values digest)"
  using spec_pairs_range [of digest]
  by (auto simp: spec_digest_values_def list_all_iff is_component_def spec_value_def)

lemma spec_values_components: "list_all is_component (spec_values text)"
  using spec_digest_values_components
  by (auto simp: spec_values_def spec_stream_def list_all_iff dest!: in_set_takeD)

lemma away_from_zero_nonzero: "away_from_zero v \<Longrightarrow> v \<noteq> 0"
  by (auto simp: away_from_zero_def)

lemma hello_world_no_surrogate: "\<not> list_ex is_surrogate hello_world"
  by (simp add: hello_world_def str_lit_def is_surrogate_def)

lemma hi_no_surrogate: "\<not> list_ex is_surrogate hi"
  by (simp add: hi_def str_lit_def is_surrogate_def)

lemma vectors_for_texts_nth:
  "vectors_for_texts (before @ [s] @ after) = Inr vectors \<Longrightarrow>
   vector_for_text s = Inr (vectors ! length before)"
proof (induction before arbitrary: vectors)
  case Nil
  then show ?case by (auto split: sum.splits)
next
  case (Cons t before)
  then show ?case by (auto split: sum.splits)
qed

subsection \<open>Determinism and the vector (C1, C2, C9)\<close>

text \<open>
  Claim C1. For every string \<open>s\<close> the outcome of \<open>DeterministicBackend.embed([s])\<close> (a
  vector, or the exception of the encoding step) is the same for every \<open>max_length\<close> and
  for every backend instance: it is \<open>_vector_for_text(s)\<close>, a function of \<open>s\<close> alone.
  The vector of \<open>s\<close> is also the same whatever other strings are embedded in the same
  batch: the entry for \<open>s\<close> in the result of a larger batch is the vector that
  \<open>embed([s])\<close> returns. The backend has no attribute that \<open>embed\<close> assigns, so earlier
  calls leave nothing behind that a later call could read.
\<close>

theorem embed_deterministic:
  "backend_embed (DeterministicBackend model_name) [s] max_length =
   backend_embed (DeterministicBackend model_name') [s] max_length' \<and>
   backend_embed (DeterministicBackend model_name) [s] max_length =
     map_sum id (\<lambda>v. [v]) (vector_for_text s) \<and>
   (backend_embed (DeterministicBackend model_name) (before @ [s] @ after) max_length = Inr vectors
      \<longrightarrow> backend_embed (DeterministicBackend model_name') [s] max_length' =
            Inr [vectors ! length before])"
proof -
  have one: "vectors_for_texts [s] = map_sum id (\<lambda>v. [v]) (vector_for_text s)"
    by (simp split: sum.splits)
  show ?thesis
    using vectors_for_texts_nth [of before s after vectors]
    by (auto simp: DeterministicBackend_def DeterministicBackend_embed_def one
          simp del: vectors_for_texts.simps)
qed

theorem embed_deterministic_witness:
  "backend_embed (DeterministicBackend (str_lit ''m1'')) [hello_world, str_lit ''b''] 8 =
     Inr [spec_vector hello_world, spec_vector (str_lit ''b'')] \<and>
   backend_embed (DeterministicBackend (str_lit ''m2'')) [str_lit ''b''] 4096 =
     Inr [spec_vector (str_lit ''b'')]"
proof -
  have b: "\<not> list_ex is_surrogate (str_lit ''b'')"
    by (simp add: str_lit_def is_surrogate_def)
  have batch: "backend_embed (DeterministicBackend (str_lit ''m1'')) ([hello_world] @ [str_lit ''b''] @ []) 8 =
     Inr [spec_vector hello_world, spec_vector (str_lit ''b'')]"
    by (simp add: DeterministicBackend_def DeterministicBackend_embed_def
          vector_for_text_ok [OF b] vector_for_text_ok [OF hello_world_no_surrogate])
  show ?thesis
    using batch
      embed_deterministic [of "str_lit ''m1''" "str_lit ''b''" 8 "str_lit ''m2''" 4096
        "[hello_world]" "[]" "[spec_vector hello_world, spec_vector (str_lit ''b'')]"]
    by simp
qed

text \<open>
  Claim C2, as amended. For every string without a surrogate code point
  \<open>_vector_for_text\<close> returns the vector of the specified algorithm: the values
  \<open>raw / 32767.5 - 1\<close> of the consecutive 2-byte little-endian integers of the SHA-256
  digests of \<open>text\<close>, a newline and the decimal counter, for the counters 0, 1, 2, ... in
  order, cut after 4096 values, each divided by the Euclidean norm of the 4096 values.
  The vector has length 4096 and, in exact real arithmetic, Euclidean norm 1. For a string
  that contains a surrogate code point the encoding step raises \<open>UnicodeEncodeError\<close>.
\<close>

theorem vector_for_text_amended:
  "(\<not> list_ex is_surrogate text \<longrightarrow>
      vector_for_text text = Inr (spec_vector text) \<and>
      spec_vector text =
        map (\<lambda>value. value / euclid_norm (spec_values text)) (spec_values text) \<and>
      spec_values text =
        take 4096
          (concat (map (\<lambda>counter.
              map (\<lambda>raw. real_of_int raw / 32767.5 - 1)
                (spec_pairs (sha256 (utf8_bytes (text @ [10] @ str_of_nat counter)))))
            [0..<256])) \<and>
      length (spec_vector text) = 4096 \<and>
      euclid_norm (spec_vector text) = 1) \<and>
   (list_ex is_surrogate text \<longrightarrow> vector_for_text text = Inl UnicodeEncodeError)"
proof -
  have "spec_vector text =
        map (\<lambda>value. value / euclid_norm (spec_values text)) (spec_values text)"
    by (simp add: spec_vector_def Let_def)
  then show ?thesis
    using spec_values_unfold [of "text"] spec_vector_norm [of "text"]
      vector_for_text_ok [of "text"] vector_for_text_surrogate [of "text"]
    by blast
qed

theorem vector_for_text_amended_witness:
  "vector_for_text hello_world = Inr (spec_vector hello_world) \<and>
   length (spec_vector hello_world) = 4096 \<and>
   euclid_norm (spec_vector hello_world) = 1 \<and>
   vector_for_text [104, 55296] = Inl UnicodeEncodeError"
proof -
  have bad: "list_ex is_surrogate [104, 55296]"
    by (simp add: is_surrogate_def)
  show ?thesis
    using vector_for_text_amended [of hello_world] vector_for_text_amended [of "[104, 55296]"]
      hello_world_no_surrogate bad
    by blast
qed

text \<open>
  Claim C2 as stated covers every input string. The one-character string \<open>U+D800\<close> (which
  \<open>json.loads\<close> produces from the escape \<open>\\ud800\<close>) has no UTF-8 encoding: no vector
  is returned.
\<close>

theorem vector_for_text_counterexample:
  "vector_for_text [55296] = Inl UnicodeEncodeError"
  by (simp add: vector_for_text_surrogate is_surrogate_def)

text \<open>
  Claim C9. For a string without a surrogate code point the loop of \<open>_vector_for_text\<close>
  returns its list of values, and whenever it returns a list, the list has 4096 components, each of the form \<open>raw / 32767.5 - 1\<close> for an integer \<open>raw\<close> in
  \<open>[0, 65535]\<close> and therefore not zero (its absolute value is at least \<open>1 / 65535\<close>); the
  Euclidean norm is at least \<open>64 / 65535\<close>, hence positive, the branch for a zero norm is
  not taken and the result is the list divided by that norm.
\<close>

theorem pre_normalisation_norm_positive:
  "(\<not> list_ex is_surrogate text \<longrightarrow> (\<exists>values. collect_values text 0 [] = Inr values)) \<and>
   (\<forall>values. collect_values text 0 [] = Inr values \<longrightarrow>
      length values = 4096 \<and>
      list_all is_component values \<and>
      list_all (\<lambda>value. value \<noteq> 0) values \<and>
      list_all away_from_zero values \<and>
      64 / 65535 \<le> euclid_norm values \<and>
      0 < euclid_norm values \<and>
      vector_for_text text = Inr (map (\<lambda>value. value / euclid_norm values) values))"
proof (intro conjI impI allI)
  assume "\<not> list_ex is_surrogate text"
  then show "\<exists>values. collect_values text 0 [] = Inr values"
    by (simp add: collect_values_ok)
next
  fix vals
  assume ret: "collect_values text 0 [] = Inr vals"
  have ok: "\<not> list_ex is_surrogate text"
    using ret collect_values_surrogate [of "text"] by auto
  with ret have v: "vals = spec_values text"
    by (simp add: collect_values_ok)
  have pos: "0 < euclid_norm (spec_values text)"
    using euclid_norm_spec_values [of "text"] by simp
  show "length vals = 4096"
    by (simp add: v)
  show "list_all is_component vals"
    unfolding v by (rule spec_values_components)
  show "list_all (\<lambda>value. value \<noteq> 0) vals"
    unfolding v using spec_values_margin [of "text"]
    by (auto simp: list_all_iff dest: away_from_zero_nonzero)
  show "list_all away_from_zero vals"
    unfolding v by (rule spec_values_margin)
  show "64 / 65535 \<le> euclid_norm vals"
    unfolding v by (rule euclid_norm_spec_values)
  show "0 < euclid_norm vals"
    unfolding v by (rule pos)
  show "vector_for_text text = Inr (map (\<lambda>value. value / euclid_norm vals) vals)"
    unfolding v using vector_for_text_ok [OF ok] by (simp add: spec_vector_def Let_def)
qed

theorem pre_normalisation_norm_positive_witness:
  "collect_values hello_world 0 [] = Inr (spec_values hello_world) \<and>
   list_all (\<lambda>value. value \<noteq> 0) (spec_values hello_world) \<and>
   0 < euclid_norm (spec_values hello_world)"
  using pre_normalisation_norm_positive [of hello_world]
    collect_values_ok [OF hello_world_no_surrogate]
  by simp

subsection \<open>Input validation (C3, C4, C10)\<close>

text \<open>
  \<open>strip\<close> removes a prefix and a suffix of whitespace, and what is left neither begins
  nor ends with whitespace.
\<close>

lemma strip_decomposition:
  "\<exists>pre post.
     s = pre @ strip s @ post \<and> list_all is_space pre \<and> list_all is_space post \<and>
     (strip s = [] \<or> (\<not> is_space (hd (strip s)) \<and> \<not> is_space (last (strip s))))"
proof -
  define pre where "pre = takeWhile is_space s"
  define t where "t = dropWhile is_space s"
  define post where "post = rev (takeWhile is_space (rev t))"
  have s: "s = pre @ t"
    by (simp add: pre_def t_def)
  have st: "strip s = rev (dropWhile is_space (rev t))"
    by (simp add: strip_def t_def)
  have "t = rev (takeWhile is_space (rev t) @ dropWhile is_space (rev t))"
    by (simp only: takeWhile_dropWhile_id rev_rev_ident)
  also have "\<dots> = rev (dropWhile is_space (rev t)) @ rev (takeWhile is_space (rev t))"
    by (simp only: rev_append)
  finally have t: "t = strip s @ post"
    by (simp only: st post_def)
  have pre: "list_all is_space pre"
    by (auto simp: pre_def list_all_iff dest: set_takeWhileD)
  have post: "list_all is_space post"
    by (auto simp: post_def list_all_iff dest: set_takeWhileD)
  have ends: "\<not> is_space (hd (strip s)) \<and> \<not> is_space (last (strip s))" if ne: "strip s \<noteq> []"
  proof
    from ne t have "t \<noteq> []" and "hd t = hd (strip s)" by auto
    moreover have "t \<noteq> [] \<Longrightarrow> \<not> is_space (hd t)"
      unfolding t_def by (rule hd_dropWhile)
    ultimately show "\<not> is_space (hd (strip s))" by simp
    from ne have d: "dropWhile is_space (rev t) \<noteq> []" by (simp add: st)
    then have "\<not> is_space (hd (dropWhile is_space (rev t)))" by (rule hd_dropWhile)
    with d show "\<not> is_space (last (strip s))" by (simp add: st last_rev)
  qed
  from s t pre post ends show ?thesis by blast
qed

lemma clean_items_strings:
  "clean_items index (map JStr ss) cleaned = Inr (cleaned @ filter (\<lambda>t. t \<noteq> []) (map strip ss))"
  by (induction ss arbitrary: index cleaned) (simp_all add: Let_def)

lemma key_simps [simp]:
  "key_texts \<noteq> key_input" "key_input \<noteq> key_texts"
  "key_texts \<noteq> key_max_length" "key_max_length \<noteq> key_texts"
  "key_input \<noteq> key_max_length" "key_max_length \<noteq> key_input"
  by (simp_all add: key_texts_def key_input_def key_max_length_def str_lit_def)

text \<open>
  Claim C3. When the payload selected from the request object is a list of strings,
  \<open>parse_input_texts\<close> strips every string, drops the ones that become empty and keeps
  the others in input order. It fails exactly when no string is left (the spec's
  \<open>EmptyInput\<close>, message \<open>No_nonempty_texts\<close>) or when more are left than \<open>max_items\<close>
  (the spec's \<open>TooManyItems\<close>, message \<open>Too_many_texts\<close> with the count and the limit);
  otherwise it returns the surviving strings.
\<close>

theorem parse_input_texts_list_of_strings:
  assumes "select_payload data = JArr (map JStr ss)"
  shows "(let cleaned = filter (\<lambda>t. t \<noteq> []) (map strip ss) in
          parse_input_texts data max_items =
            (if cleaned = [] then Inl (ValueError No_nonempty_texts)
             else if int (length cleaned) > max_items
               then Inl (ValueError (Too_many_texts (length cleaned) max_items))
             else Inr cleaned) \<and>
          (isl (parse_input_texts data max_items) \<longleftrightarrow>
             cleaned = [] \<or> int (length cleaned) > max_items))"
proof -
  define cleaned where "cleaned = filter (\<lambda>t. t \<noteq> []) (map strip ss)"
  have "clean_items 0 (map JStr ss) [] = Inr cleaned"
    by (simp only: clean_items_strings cleaned_def append_Nil)
  with assms have "parse_input_texts data max_items = check_cleaned cleaned max_items"
    by (simp add: parse_input_texts_def)
  then show ?thesis
    by (simp add: check_cleaned_def Let_def cleaned_def [symmetric])
qed

theorem parse_input_texts_list_of_strings_witness:
  "select_payload example_body = JArr (map JStr example_texts) \<and>
   parse_input_texts example_body 64 = Inr [str_lit ''a'', str_lit ''b''] \<and>
   parse_input_texts example_body 1 = Inl (ValueError (Too_many_texts 2 1)) \<and>
   parse_input_texts [key_texts \<mapsto> JArr (map JStr [str_lit ''  ''])] 64 = Inl (ValueError No_nonempty_texts)"
proof -
  have p: "select_payload example_body = JArr (map JStr example_texts)"
    by (simp add: select_payload_def example_body_def dict_get_def)
  have q: "select_payload [key_texts \<mapsto> JArr (map JStr [str_lit ''  ''])] = JArr (map JStr [str_lit ''  ''])"
    by (simp add: select_payload_def dict_get_def)
  show ?thesis
    using p parse_input_texts_list_of_strings [OF p, of 64]
      parse_input_texts_list_of_strings [OF p, of 1]
      parse_input_texts_list_of_strings [OF q, of 64]
    by (simp add: example_texts_def str_lit_def strip_def is_space_def)
qed

text \<open>
  Claim C4, as amended. For a request object whose \<open>max_length\<close> is not an infinite
  float, \<open>parse_max_length\<close> returns: the default clamped to \<open>[8, 4096]\<close> when the field
  is absent (the default takes the same path as a supplied value); the default, unchanged,
  when \<open>int\<close> raises \<open>TypeError\<close> or \<open>ValueError\<close> on the field's value; the coerced
  value clamped to \<open>[8, 4096]\<close> otherwise.
\<close>

theorem parse_max_length_amended:
  assumes "data key_max_length \<noteq> Some (JFloat PosInf)"
      and "data key_max_length \<noteq> Some (JFloat NegInf)"
  shows "parse_max_length int_of_str data default_value =
           Inr (case data key_max_length of
                  None \<Rightarrow> clamp_max_length default_value
                | Some raw \<Rightarrow>
                    (case py_int int_of_str raw of
                       Inr v \<Rightarrow> clamp_max_length v
                     | Inl e \<Rightarrow> default_value))"
proof (cases "data key_max_length")
  case None
  then show ?thesis
    by (simp add: parse_max_length_def dict_get_default_def clamp_max_length_def)
next
  case (Some raw)
  with assms have "raw \<noteq> JFloat PosInf" "raw \<noteq> JFloat NegInf" by simp_all
  then have "py_int int_of_str raw \<noteq> Inl OverflowError \<and>
             (\<forall>e. py_int int_of_str raw = Inl e \<longrightarrow> e = TypeError \<or> is_ValueError e)"
    by (induction int_of_str raw rule: py_int.induct) (auto split: option.splits)
  with Some show ?thesis
    by (auto simp: parse_max_length_def dict_get_default_def clamp_max_length_def
          split: sum.splits)
qed

theorem parse_max_length_amended_witness:
  "parse_max_length decimal_int_of_str [key_max_length \<mapsto> JInt 4] 512 = Inr 8 \<and>
   parse_max_length decimal_int_of_str [key_max_length \<mapsto> JInt 99999] 512 = Inr 4096 \<and>
   parse_max_length decimal_int_of_str [key_max_length \<mapsto> JStr (str_lit ''64'')] 512 = Inr 64 \<and>
   parse_max_length decimal_int_of_str [key_max_length \<mapsto> JStr (str_lit ''abc'')] 10000 = Inr 10000 \<and>
   parse_max_length decimal_int_of_str [key_max_length \<mapsto> JNull] 512 = Inr 512 \<and>
   parse_max_length decimal_int_of_str Map.empty 512 = Inr 512"
  using parse_max_length_amended [of "[key_max_length \<mapsto> JInt 4]" decimal_int_of_str 512]
    parse_max_length_amended [of "[key_max_length \<mapsto> JInt 99999]" decimal_int_of_str 512]
    parse_max_length_amended [of "[key_max_length \<mapsto> JStr (str_lit ''64'')]" decimal_int_of_str 512]
    parse_max_length_amended [of "[key_max_length \<mapsto> JStr (str_lit ''abc'')]" decimal_int_of_str 10000]
    parse_max_length_amended [of "[key_max_length \<mapsto> JNull]" decimal_int_of_str 512]
    parse_max_length_amended [of Map.empty decimal_int_of_str 512]
  by (simp add: clamp_max_length_def decimal_int_of_str_def str_lit_def strip_def is_space_def)

text \<open>
  Claim C4 as stated says that an absent field gives the default itself. With the default
  10000 and no \<open>max_length\<close> field the result is 4096.
\<close>

theorem parse_max_length_counterexample:
  "empty_body key_max_length = None \<and>
   parse_max_length decimal_int_of_str empty_body 10000 = Inr 4096 \<and>
   (10000 :: int) \<noteq> 4096"
  by (simp add: parse_max_length_def dict_get_default_def empty_body_def)

text \<open>
  For an infinite float \<open>int\<close> raises \<open>OverflowError\<close>, which the handler
  \<open>except (TypeError, ValueError)\<close> does not catch.
\<close>

lemma parse_max_length_overflow:
  "parse_max_length int_of_str [key_max_length \<mapsto> JFloat PosInf] default_value = Inl OverflowError"
  by (simp add: parse_max_length_def dict_get_default_def)

text \<open>
  Claim C10. With both keys present the value of \<open>"texts"\<close> decides and the value of
  \<open>"input"\<close> is ignored, unless \<open>"texts"\<close> is null: then the value of \<open>"input"\<close> is
  used as if it were the only payload. An object whose \<open>"texts"\<close> is null and that has
  no \<open>"input"\<close> key fails with the missing-field error.
\<close>

theorem parse_input_texts_key_precedence:
  "(data key_texts = Some v \<and> v \<noteq> JNull \<longrightarrow>
      parse_input_texts (data(key_input \<mapsto> w)) max_items =
      parse_input_texts (data(key_input := None)) max_items) \<and>
   (data key_texts = Some JNull \<and> data key_input = Some w \<longrightarrow>
      parse_input_texts data max_items = parse_input_texts [key_texts \<mapsto> w] max_items) \<and>
   (data key_texts = Some JNull \<and> data key_input = None \<longrightarrow>
      parse_input_texts data max_items = Inl (ValueError Missing_field))"
proof (intro conjI impI)
  assume texts: "data key_texts = Some v \<and> v \<noteq> JNull"
  then have "select_payload (data(key_input \<mapsto> w)) = v"
    and "select_payload (data(key_input := None)) = v"
    by (simp_all add: select_payload_def dict_get_def)
  then show "parse_input_texts (data(key_input \<mapsto> w)) max_items =
             parse_input_texts (data(key_input := None)) max_items"
    by (simp add: parse_input_texts_def)
next
  assume "data key_texts = Some JNull \<and> data key_input = Some w"
  then have "select_payload data = w" and "select_payload [key_texts \<mapsto> w] = w"
    by (simp_all add: select_payload_def dict_get_def)
  then show "parse_input_texts data max_items = parse_input_texts [key_texts \<mapsto> w] max_items"
    by (simp add: parse_input_texts_def)
next
  assume "data key_texts = Some JNull \<and> data key_input = None"
  then have "select_payload data = JNull"
    by (simp add: select_payload_def dict_get_def)
  then show "parse_input_texts data max_items = Inl (ValueError Missing_field)"
    by (simp add: parse_input_texts_def)
qed

theorem parse_input_texts_key_precedence_witness:
  "parse_input_texts example_both_keys 64 = Inr [str_lit ''a''] \<and>
   parse_input_texts example_null_texts 64 = Inr [str_lit ''b''] \<and>
   parse_input_texts [key_texts \<mapsto> JNull] 64 = Inl (ValueError Missing_field)"
proof -
  have a: "parse_input_texts [key_texts \<mapsto> JStr (str_lit ''a'')] 64 = Inr [str_lit ''a'']"
    and b: "parse_input_texts [key_texts \<mapsto> JStr (str_lit ''b'')] 64 = Inr [str_lit ''b'']"
    by (simp_all add: parse_input_texts_def select_payload_def dict_get_def check_cleaned_def
          str_lit_def strip_def is_space_def)
  have e: "[key_texts \<mapsto> JStr (str_lit ''a'')](key_input := None) = [key_texts \<mapsto> JStr (str_lit ''a'')]"
    by (rule ext) simp
  show ?thesis
    using parse_input_texts_key_precedence
        [of "[key_texts \<mapsto> JStr (str_lit ''a'')]" "JStr (str_lit ''a'')" "JStr (str_lit ''b'')" 64]
      parse_input_texts_key_precedence [of example_null_texts _ "JStr (str_lit ''b'')" 64]
      parse_input_texts_key_precedence [of "[key_texts \<mapsto> JNull]" _ _ 64]
    by (simp add: a b e example_both_keys_def example_null_texts_def)
qed

subsection \<open>Startup (C5)\<close>

lemma DeterministicBackend_dimensions_eq [simp]:
  "backend_dimensions (DeterministicBackend model_name) = 4096"
  by (simp add: DeterministicBackend_def DeterministicBackend_dimensions_def
        PIPELINE_VECTOR_DIMENSIONS_def)

lemma backend_names_differ: "str_lit ''deterministic'' \<noteq> str_lit ''transformers''"
  by (simp add: str_lit_def)

text \<open>
  Claim C5, as amended. \<open>create_backend\<close> fails exactly when the construction of the
  backend fails (the backend name is neither \<open>deterministic\<close> nor \<open>transformers\<close>, or
  loading the model raises) or the constructed backend declares a dimensionality other
  than 4096. Whenever it succeeds the backend declares 4096 dimensions, and so does the
  backend of every \<open>ServiceState\<close> that \<open>run_server\<close> builds.
\<close>

theorem create_backend_amended:
  "(create_backend load_model settings = Inl e \<longleftrightarrow>
      construct_backend load_model settings = Inl e \<or>
      (\<exists>b. construct_backend load_model settings = Inr b \<and> backend_dimensions b \<noteq> 4096 \<and>
           e = RuntimeError (Backend_dimension_mismatch (backend_dimensions b) 4096))) \<and>
   (construct_backend load_model settings = Inl e \<longleftrightarrow>
      (settings_backend settings = str_lit ''transformers'' \<and>
       load_model (settings_model_name settings) (settings_dtype settings) = Inl e) \<or>
      (settings_backend settings \<noteq> str_lit ''deterministic'' \<and>
       settings_backend settings \<noteq> str_lit ''transformers'' \<and>
       e = ValueError (Unsupported_backend (settings_backend settings)))) \<and>
   (create_backend load_model settings = Inr backend \<longrightarrow>
      construct_backend load_model settings = Inr backend \<and> backend_dimensions backend = 4096) \<and>
   (run_server_state load_model settings now = Inr state \<longrightarrow>
      state_settings state = settings \<and> backend_dimensions (state_backend state) = 4096)"
proof -
  have a: "create_backend load_model settings = Inl e \<longleftrightarrow>
      construct_backend load_model settings = Inl e \<or>
      (\<exists>b. construct_backend load_model settings = Inr b \<and> backend_dimensions b \<noteq> 4096 \<and>
           e = RuntimeError (Backend_dimension_mismatch (backend_dimensions b) 4096))"
    by (auto simp: create_backend_def PIPELINE_VECTOR_DIMENSIONS_def split: sum.splits)
  have b: "construct_backend load_model settings = Inl e \<longleftrightarrow>
      (settings_backend settings = str_lit ''transformers'' \<and>
       load_model (settings_model_name settings) (settings_dtype settings) = Inl e) \<or>
      (settings_backend settings \<noteq> str_lit ''deterministic'' \<and>
       settings_backend settings \<noteq> str_lit ''transformers'' \<and>
       e = ValueError (Unsupported_backend (settings_backend settings)))"
    using backend_names_differ
    by (auto simp: construct_backend_def TransformersBackend_def Let_def split: sum.splits)
  have c: "create_backend load_model settings = Inr backend \<longrightarrow>
      construct_backend load_model settings = Inr backend \<and> backend_dimensions backend = 4096"
    by (auto simp: create_backend_def PIPELINE_VECTOR_DIMENSIONS_def split: sum.splits if_splits)
  have d: "run_server_state load_model settings now = Inr state \<longrightarrow>
      state_settings state = settings \<and> backend_dimensions (state_backend state) = 4096"
    by (auto simp: run_server_state_def create_backend_def PIPELINE_VECTOR_DIMENSIONS_def
          split: sum.splits if_splits)
  from a b c d show ?thesis by blast
qed

theorem create_backend_amended_witness:
  "create_backend (example_loader 1024) (example_settings (str_lit ''transformers'')) =
     Inl (RuntimeError (Backend_dimension_mismatch 1024 4096)) \<and>
   create_backend failing_loader (example_settings (str_lit ''transformers'')) =
     Inl (LibraryError 0) \<and>
   backend_dimensions (DeterministicBackend (str_lit ''Qwen/Qwen3-Embedding-8B'')) = 4096 \<and>
   create_backend failing_loader (example_settings (str_lit ''deterministic'')) =
     Inr (DeterministicBackend (str_lit ''Qwen/Qwen3-Embedding-8B'')) \<and>
   backend_dimensions (state_backend
     \<lparr>state_settings = example_settings (str_lit ''deterministic''),
      state_backend = DeterministicBackend (str_lit ''Qwen/Qwen3-Embedding-8B''),
      state_started_at = 0\<rparr>) = 4096"
proof -
  have det: "create_backend failing_loader (example_settings (str_lit ''deterministic'')) =
     Inr (DeterministicBackend (str_lit ''Qwen/Qwen3-Embedding-8B''))"
    by (simp add: create_backend_def construct_backend_def example_settings_def
          PIPELINE_VECTOR_DIMENSIONS_def)
  have run: "run_server_state failing_loader (example_settings (str_lit ''deterministic'')) 0 =
     Inr \<lparr>state_settings = example_settings (str_lit ''deterministic''),
          state_backend = DeterministicBackend (str_lit ''Qwen/Qwen3-Embedding-8B''),
          state_started_at = 0\<rparr>"
    by (simp add: run_server_state_def det)
  have mis: "create_backend (example_loader 1024) (example_settings (str_lit ''transformers'')) =
     Inl (RuntimeError (Backend_dimension_mismatch 1024 4096))"
    by (simp add: create_backend_def construct_backend_def example_settings_def
          TransformersBackend_def example_loader_def str_lit_def PIPELINE_VECTOR_DIMENSIONS_def)
  have fail: "construct_backend failing_loader (example_settings (str_lit ''transformers'')) =
     Inl (LibraryError 0)"
    by (simp add: construct_backend_def example_settings_def TransformersBackend_def
          failing_loader_def str_lit_def)
  show ?thesis
    using create_backend_amended
        [of "example_loader 1024" "example_settings (str_lit ''transformers'')"
            "RuntimeError (Backend_dimension_mismatch 1024 4096)"]
      create_backend_amended
        [of failing_loader "example_settings (str_lit ''transformers'')" "LibraryError 0"]
      create_backend_amended
        [of failing_loader "example_settings (str_lit ''deterministic'')" _
            "DeterministicBackend (str_lit ''Qwen/Qwen3-Embedding-8B'')" 0
            "\<lparr>state_settings = example_settings (str_lit ''deterministic''),
              state_backend = DeterministicBackend (str_lit ''Qwen/Qwen3-Embedding-8B''),
              state_started_at = 0\<rparr>"]
    by (simp add: det run mis fail)
qed

text \<open>
  Claim C5 as stated makes a dimension mismatch the only reason of failure. With an
  unsupported backend name, or with a model that fails to load, \<open>create_backend\<close> fails
  and no backend has been constructed whose dimensionality could differ.
\<close>

theorem create_backend_counterexample:
  "create_backend (example_loader 4096) (example_settings (str_lit ''onnx'')) =
     Inl (ValueError (Unsupported_backend (str_lit ''onnx''))) \<and>
   construct_backend (example_loader 4096) (example_settings (str_lit ''onnx'')) =
     Inl (ValueError (Unsupported_backend (str_lit ''onnx''))) \<and>
   create_backend failing_loader (example_settings (str_lit ''transformers'')) =
     Inl (LibraryError 0) \<and>
   construct_backend failing_loader (example_settings (str_lit ''transformers'')) =
     Inl (LibraryError 0)"
  by (simp add: create_backend_def construct_backend_def example_settings_def str_lit_def
        TransformersBackend_def failing_loader_def)

subsection \<open>The handler (C6, C7, C8)\<close>

lemma check_cleaned_nonempty: "check_cleaned cleaned max_items = Inr texts \<Longrightarrow> texts \<noteq> []"
  by (auto simp: check_cleaned_def split: if_splits)

lemma parse_input_texts_nonempty: "parse_input_texts data max_items = Inr texts \<Longrightarrow> texts \<noteq> []"
  by (auto simp: parse_input_texts_def Let_def dest: check_cleaned_nonempty
        split: if_splits sum.splits json.splits)

lemma read_request_nonempty:
  "read_request int_of_str json_loads state request = Inr (texts, max_length) \<Longrightarrow> texts \<noteq> []"
  by (auto simp: read_request_def dest: parse_input_texts_nonempty split: sum.splits)

lemma paths_differ: "path_embed \<noteq> path_v1_embeddings"
  by (simp add: path_embed_def path_v1_embeddings_def str_lit_def)

lemma read_json_path: "read_json int_of_str json_loads state (request\<lparr>req_path := p\<rparr>) =
    read_json int_of_str json_loads state request"
  by (simp add: read_json_def Let_def cong: option.case_cong if_cong)

lemma read_request_path: "read_request int_of_str json_loads state (request\<lparr>req_path := p\<rparr>) =
    read_request int_of_str json_loads state request"
  by (simp add: read_request_def read_json_path)

lemma read_request_backend:
  "read_request int_of_str json_loads (state\<lparr>state_backend := b\<rparr>) request =
   read_request int_of_str json_loads state request"
proof -
  have "read_json int_of_str json_loads (state\<lparr>state_backend := b\<rparr>) request =
        read_json int_of_str json_loads state request"
    by (simp add: read_json_def Let_def cong: option.case_cong if_cong)
  then show ?thesis
    by (simp add: read_request_def cong: sum.case_cong)
qed

lemma example_read_request:
  "read_request decimal_int_of_str example_json_loads example_state
     (example_request (str_lit ''POST'') path) = Inr ([hi], 512)"
proof -
  have len: "decimal_int_of_str (strip (str_lit ''19'')) = Some 19"
    by (simp add: decimal_int_of_str_def str_lit_def strip_def is_space_def)
  have body: "take 19 (utf8_bytes (str_lit ''{\"texts\": [\" hi \"]}'')) =
              utf8_bytes (str_lit ''{\"texts\": [\" hi \"]}'')"
    by (simp add: utf8_bytes_def utf8_char_def str_lit_def)
  have json: "read_json decimal_int_of_str example_json_loads example_state
     (example_request (str_lit ''POST'') path) = Inr [key_texts \<mapsto> JArr [JStr (str_lit '' hi '')]]"
    by (simp add: read_json_def example_request_def len body example_json_loads_def
          example_state_def example_settings_def DEFAULT_MAX_BODY_BYTES_def)
  have texts: "parse_input_texts [key_texts \<mapsto> JArr [JStr (str_lit '' hi '')]] 64 = Inr [hi]"
    by (simp add: parse_input_texts_def select_payload_def dict_get_def check_cleaned_def
          hi_def str_lit_def strip_def is_space_def)
  have ml: "parse_max_length decimal_int_of_str [key_texts \<mapsto> JArr [JStr (str_lit '' hi '')]] 512 = Inr 512"
    by (simp add: parse_max_length_def dict_get_default_def)
  have cfg: "settings_max_items (state_settings example_state) = 64"
    "settings_max_length (state_settings example_state) = 512"
    by (simp_all add: example_state_def example_settings_def DEFAULT_MAX_ITEMS_def
          DEFAULT_MAX_LENGTH_def)
  show ?thesis
    by (simp add: read_request_def json cfg texts ml)
qed

lemma example_do_POST:
  "do_POST decimal_int_of_str example_json_loads elapsed_ms example_state
     (example_request (str_lit ''POST'') path_embed) =
     Inr \<lparr>resp_status = 200,
          resp_payload =
            Embed_payload [spec_vector hi] (str_lit ''Qwen/Qwen3-Embedding-8B'') 4096 1 elapsed_ms\<rparr>"
  "do_POST decimal_int_of_str example_json_loads elapsed_ms example_state
     (example_request (str_lit ''POST'') path_v1_embeddings) =
     Inr \<lparr>resp_status = 200,
          resp_payload =
            OpenAI_payload [(0, spec_vector hi)] (str_lit ''Qwen/Qwen3-Embedding-8B'')\<rparr>"
proof -
  have emb: "backend_embed (state_backend example_state) [hi] 512 = Inr [spec_vector hi]"
    by (simp add: example_state_def DeterministicBackend_def DeterministicBackend_embed_def
          vector_for_text_ok [OF hi_no_surrogate])
  have cfg: "backend_dimensions (state_backend example_state) = 4096"
    "settings_model_name (state_settings example_state) = str_lit ''Qwen/Qwen3-Embedding-8B''"
    by (simp_all add: example_state_def example_settings_def)
  have len: "length (spec_vector hi) = 4096"
    using spec_vector_norm [of hi] by simp
  have paths: "req_path (example_request (str_lit ''POST'') path_embed) = path_embed"
    "req_path (example_request (str_lit ''POST'') path_v1_embeddings) = path_v1_embeddings"
    by (simp_all add: example_request_def)
  show "do_POST decimal_int_of_str example_json_loads elapsed_ms example_state
     (example_request (str_lit ''POST'') path_embed) =
     Inr \<lparr>resp_status = 200,
          resp_payload =
            Embed_payload [spec_vector hi] (str_lit ''Qwen/Qwen3-Embedding-8B'') 4096 1 elapsed_ms\<rparr>"
    using paths_differ
    by (simp add: do_POST_def paths example_read_request emb cfg len write_json_def OK_def)
  show "do_POST decimal_int_of_str example_json_loads elapsed_ms example_state
     (example_request (str_lit ''POST'') path_v1_embeddings) =
     Inr \<lparr>resp_status = 200,
          resp_payload =
            OpenAI_payload [(0, spec_vector hi)] (str_lit ''Qwen/Qwen3-Embedding-8B'')\<rparr>"
    using paths_differ
    by (simp add: do_POST_def paths example_read_request emb cfg len write_json_def OK_def
          enumerate_simps)
qed

text \<open>
  Claim C6. For a POST to one of the two embedding paths whose body passes validation and
  whose backend call returns, the handler writes a response; its status is 500 (with an
  error object as body) exactly when the number of vectors differs from the number of
  texts or the first vector's width differs from the backend's declared dimensionality.
  When neither is the case there is a first vector and the response is the success
  response, status 200, in the shape of the path.
\<close>

theorem do_POST_contract_check:
  assumes path: "req_path request = path_embed \<or> req_path request = path_v1_embeddings"
      and req: "read_request int_of_str json_loads state request = Inr (texts, max_length)"
      and emb: "backend_embed (state_backend state) texts max_length = Inr vectors"
  shows "\<exists>response.
           do_POST int_of_str json_loads elapsed_ms state request = Inr response \<and>
           (resp_status response = 500 \<longleftrightarrow> contract_violated (state_backend state) texts vectors) \<and>
           (contract_violated (state_backend state) texts vectors \<longrightarrow>
              (\<exists>message. resp_payload response = Error_payload message)) \<and>
           (\<not> contract_violated (state_backend state) texts vectors \<longrightarrow>
              vectors \<noteq> [] \<and>
              response = \<lparr>resp_status = 200,
                          resp_payload = success_payload elapsed_ms state request vectors\<rparr>)"
proof -
  have ne: "texts \<noteq> []" by (rule read_request_nonempty [OF req])
  show ?thesis
  proof (cases "length vectors \<noteq> length texts")
    case True
    with path req emb show ?thesis
      by (auto simp: do_POST_def contract_violated_def write_error_def write_json_def
            INTERNAL_SERVER_ERROR_def)
  next
    case False
    with ne obtain v vs where v: "vectors = v # vs" by (cases vectors) auto
    show ?thesis
    proof (cases "int (length v) \<noteq> backend_dimensions (state_backend state)")
      case True
      with path req emb v False show ?thesis
        by (auto simp: do_POST_def contract_violated_def write_error_def write_json_def
              INTERNAL_SERVER_ERROR_def)
    next
      case ok: False
      with path req emb v False show ?thesis
        by (auto simp: do_POST_def contract_violated_def write_error_def write_json_def
              INTERNAL_SERVER_ERROR_def OK_def success_payload_def)
    qed
  qed
qed

theorem do_POST_contract_check_witness:
  "do_POST decimal_int_of_str example_json_loads 3 example_state
     (example_request (str_lit ''POST'') path_embed) =
     Inr \<lparr>resp_status = 200,
          resp_payload = Embed_payload [spec_vector hi] (str_lit ''Qwen/Qwen3-Embedding-8B'') 4096 1 3\<rparr> \<and>
   do_POST decimal_int_of_str example_json_loads 3
     (example_state\<lparr>state_backend := narrow_backend\<rparr>)
     (example_request (str_lit ''POST'') path_embed) =
     Inr \<lparr>resp_status = 500, resp_payload = Error_payload (Dimension_mismatch 1 4096)\<rparr>"
proof -
  let ?request = "example_request (str_lit ''POST'') path_embed"
  let ?narrow = "example_state\<lparr>state_backend := narrow_backend\<rparr>"
  have path: "req_path ?request = path_embed \<or> req_path ?request = path_v1_embeddings"
    by (simp add: example_request_def)
  have emb: "backend_embed (state_backend example_state) [hi] 512 = Inr [spec_vector hi]"
    by (simp add: example_state_def DeterministicBackend_def DeterministicBackend_embed_def
          vector_for_text_ok [OF hi_no_surrogate])
  have ok: "\<not> contract_violated (state_backend example_state) [hi] [spec_vector hi]"
    using spec_vector_norm [of hi]
    by (simp add: contract_violated_def example_state_def)
  have payload: "success_payload 3 example_state ?request [spec_vector hi] =
      Embed_payload [spec_vector hi] (str_lit ''Qwen/Qwen3-Embedding-8B'') 4096 1 3"
    using paths_differ
    by (simp add: success_payload_def example_request_def example_state_def example_settings_def)
  have req': "read_request decimal_int_of_str example_json_loads ?narrow ?request = Inr ([hi], 512)"
    by (simp only: read_request_backend example_read_request)
  have emb': "backend_embed (state_backend ?narrow) [hi] 512 = Inr [[0]]"
    by (simp add: narrow_backend_def)
  have bad: "contract_violated (state_backend ?narrow) [hi] [[0]]"
    by (simp add: contract_violated_def narrow_backend_def)
  have narrow: "do_POST decimal_int_of_str example_json_loads 3 ?narrow ?request =
     Inr \<lparr>resp_status = 500, resp_payload = Error_payload (Dimension_mismatch 1 4096)\<rparr>"
  proof -
    have p: "req_path ?request = path_embed"
      by (simp add: example_request_def)
    have d: "backend_dimensions narrow_backend = 4096"
      and e: "backend_embed narrow_backend [hi] 512 = Inr [[0]]"
      by (simp_all add: narrow_backend_def)
    show ?thesis
      using paths_differ
      by (simp add: do_POST_def p req' e d write_error_def write_json_def
            INTERNAL_SERVER_ERROR_def)
  qed
  show ?thesis
    using do_POST_contract_check [OF path example_read_request emb, of 3]
      do_POST_contract_check [OF path req' emb', of 3] ok payload bad narrow
    by auto
qed

text \<open>
  Claim C7. For every request, posting it to \<open>/embed\<close> and to \<open>/v1/embeddings\<close> gives the
  same outcome up to the envelope: the same uncaught exception, or responses with the same
  status, the same error message and the same vectors in the same order. A backend call
  is taken as a function of the texts and \<open>max_length\<close>; the measured times may differ.
\<close>

theorem endpoints_equivalent:
  "map_sum id response_content
     (do_POST int_of_str json_loads elapsed_ms state (request\<lparr>req_path := path_embed\<rparr>)) =
   map_sum id response_content
     (do_POST int_of_str json_loads elapsed_ms' state (request\<lparr>req_path := path_v1_embeddings\<rparr>))"
  using paths_differ
  by (auto simp: do_POST_def read_request_path response_content_def write_error_def
        write_json_def split: sum.splits prod.splits)

theorem endpoints_equivalent_witness:
  "map_sum id response_content
     (do_POST decimal_int_of_str example_json_loads 3 example_state
        ((example_request (str_lit ''POST'') path_health)\<lparr>req_path := path_embed\<rparr>)) =
     Inr (200, None, Some [spec_vector hi]) \<and>
   map_sum id response_content
     (do_POST decimal_int_of_str example_json_loads 5 example_state
        ((example_request (str_lit ''POST'') path_health)\<lparr>req_path := path_v1_embeddings\<rparr>)) =
     Inr (200, None, Some [spec_vector hi])"
proof -
  have r: "(example_request (str_lit ''POST'') path_health)\<lparr>req_path := p\<rparr> =
           example_request (str_lit ''POST'') p" for p
    by (simp add: example_request_def)
  show ?thesis
    using endpoints_equivalent
        [of decimal_int_of_str example_json_loads 3 example_state
            "example_request (str_lit ''POST'') path_health" 5]
    by (simp add: r example_do_POST response_content_def)
qed




end
